theory Spec2Isabelle
  imports Main "HOL-Library.Char_ord" "HOL-Library.List_Lexorder"
begin

section \<open>Data model of main.go\<close>

text \<open>
  The three structs that \<open>yaml.Unmarshal\<close> fills (lines 25--36) and the pair handed to
  \<open>switchContext\<close> (lines 38--41).
\<close>

record ContextAttribute =
  ActiveNamespace :: string

record Context =
  Name :: string
  Attributes :: ContextAttribute

record config =
  ActiveContext :: string
  Contexts :: "Context list"

record referenceHelper =
  rh_context :: string
  rh_namespace :: string

text \<open>
  The structure that \<open>clientcmd\<close>'s \<open>RawConfig\<close> returns and \<open>ModifyConfig\<close> persists.
  Its declaration is not part of the repository; the source uses the field
  \<open>CurrentContext\<close>, the map \<open>Contexts\<close> from names to (pointers to) entries and
  the field \<open>Namespace\<close> of an entry. Whatever else an entry holds is
  \<open>ctx_rest\<close> (type \<open>'x\<close>), whatever else the document holds is \<open>cfg_rest\<close>
  (type \<open>'r\<close>).
\<close>

record 'x api_Context =
  Namespace :: string
  ctx_rest :: 'x

record ('x, 'r) api_Config =
  CurrentContext :: string
  api_Contexts :: "string \<rightharpoonup> 'x api_Context"
  cfg_rest :: 'r

section \<open>Outcomes of a call\<close>

text \<open>
  A call either returns a value in a world, or ends the process: \<open>os.Exit\<close> with a
  status, \<open>log.Fatalln\<close> with the message it prints, or a run-time panic.
\<close>

datatype ('a, 'w) proc =
  Return 'a 'w
  | Exit nat 'w
  | LogFatal string
  | Panic string

section \<open>The world outside the program\<close>

text \<open>
  The library calls on the file named by \<open>KUBECONFIG\<close> are parameters: \<open>'fs\<close> is the
  state of the file system, \<open>Inl\<close> carries the message of a returned error.
\<close>

record ('fs, 'x, 'r) library =
  ReadFile :: "'fs \<Rightarrow> string + string"
  Unmarshal :: "string \<Rightarrow> string + config"
  RawConfig :: "'fs \<Rightarrow> string + ('x, 'r) api_Config"
  ModifyConfig :: "('x, 'r) api_Config \<Rightarrow> 'fs \<Rightarrow> string + 'fs"

record 'fs world =
  fs :: 'fs
  logged :: "string list"

section \<open>switchContext (lines 87--107)\<close>

definition switchContext ::
  "('fs, 'x, 'r) library \<Rightarrow> referenceHelper \<Rightarrow> 'fs world \<Rightarrow> (unit, 'fs world) proc" where
  "switchContext L rh w =
     (case RawConfig L (fs w) of
        Inl err \<Rightarrow> LogFatal err
      | Inr config0 \<Rightarrow>
          (let config1 = config0\<lparr>CurrentContext := rh_context rh\<rparr> in
           case api_Contexts config1 (rh_context rh) of
             None \<Rightarrow> Panic ''invalid memory address or nil pointer dereference''
           | Some c \<Rightarrow>
               (let config2 = config1\<lparr>api_Contexts :=
                       (api_Contexts config1)(rh_context rh \<mapsto> c\<lparr>Namespace := rh_namespace rh\<rparr>)\<rparr> in
                case ModifyConfig L config2 (fs w) of
                  Inl err \<Rightarrow> LogFatal err
                | Inr fs' \<Rightarrow>
                    Return () (w\<lparr>fs := fs',
                      logged := logged w @
                        [''switched to '' @ rh_context rh @ ''/'' @ rh_namespace rh]\<rparr>))))"

section \<open>loadConfig (lines 109--122)\<close>

definition loadConfig ::
  "('fs, 'x, 'r) library \<Rightarrow> 'fs world \<Rightarrow> (config, 'fs world) proc" where
  "loadConfig L w =
     (case ReadFile L (fs w) of
        Inl err \<Rightarrow> LogFatal err
      | Inr configContent \<Rightarrow>
          if length configContent = 0 then LogFatal ''empty configuration file''
          else (case Unmarshal L configContent of
                  Inl err \<Rightarrow> LogFatal err
                | Inr kubeconfig \<Rightarrow> Return kubeconfig w))"

section \<open>contextExists (lines 147--155)\<close>

fun rangeContexts :: "string \<Rightarrow> Context list \<Rightarrow> bool" where
  "rangeContexts context [] = False"
| "rangeContexts context (ctx # rest) =
     (if context = Name ctx then True else rangeContexts context rest)"

definition contextExists :: "config \<Rightarrow> string \<Rightarrow> bool" where
  "contextExists kubeconfig context = rangeContexts context (Contexts kubeconfig)"

section \<open>quickSwitch (lines 124--145)\<close>

text \<open>
  \<open>strings.Split\<close> for a separator of one byte: cut at each occurrence, so the result
  has one more element than the string has separators.
\<close>

function Split :: "string \<Rightarrow> char \<Rightarrow> string list" where
  "Split s sep =
     (if sep \<in> set s
      then takeWhile (\<lambda>x. x \<noteq> sep) s # Split (tl (dropWhile (\<lambda>x. x \<noteq> sep) s)) sep
      else [s])"
  by pat_completeness auto
termination
proof (relation "measure (\<lambda>(s, sep). length s)")
  show "wf (measure (\<lambda>(s, sep). length s))" by simp
next
  fix s :: string and sep :: char
  assume mem: "sep \<in> set s"
  have ne: "dropWhile (\<lambda>x. x \<noteq> sep) s \<noteq> []"
    using mem by simp
  have "length (dropWhile (\<lambda>x. x \<noteq> sep) s) \<le> length s"
    by (rule length_dropWhile_le)
  with ne have "length (tl (dropWhile (\<lambda>x. x \<noteq> sep) s)) < length s"
    by (cases "dropWhile (\<lambda>x. x \<noteq> sep) s") auto
  then show "((tl (dropWhile (\<lambda>x. x \<noteq> sep) s), sep), (s, sep)) \<in> measure (\<lambda>(s, sep). length s)"
    by simp
qed

declare Split.simps [simp del]

text \<open>\<open>switchContext(...)\<close> followed by \<open>os.Exit(0)\<close>.\<close>

definition exit0 :: "(unit, 'w) proc \<Rightarrow> (unit, 'w) proc" where
  "exit0 p = (case p of Return u w \<Rightarrow> Exit 0 w | other \<Rightarrow> other)"

definition quickSwitch ::
  "('fs, 'x, 'r) library \<Rightarrow> config \<Rightarrow> string list \<Rightarrow> 'fs world \<Rightarrow> (unit, 'fs world) proc" where
  "quickSwitch L kubeconfig Args w =
     (if length Args = 1 then Return () w
      else if length Args < 2 then Panic ''index out of range''
      else
        (let s = Split (Args ! 1) (CHR ''/'') in
         if length Args = 2 \<and> length s = 1
         then exit0 (switchContext L
                \<lparr>rh_context = ActiveContext kubeconfig, rh_namespace = Args ! 1\<rparr> w)
         else if length Args = 2 \<and> length s = 2 \<and> contextExists kubeconfig (s ! 0)
         then exit0 (switchContext L \<lparr>rh_context = s ! 0, rh_namespace = s ! 1\<rparr> w)
         else if length Args = 3 \<and> contextExists kubeconfig (Args ! 1)
         then exit0 (switchContext L \<lparr>rh_context = Args ! 1, rh_namespace = Args ! 2\<rparr> w)
         else Return () w))"

section \<open>getNamespacesInContextsCluster (lines 49--85)\<close>

text \<open>
  What the three calls to the client libraries give for one context at one moment:
  \<open>ClientConfig\<close> is the error of \<open>ClientConfig()\<close>, as the string of its
  \<open>reflect.TypeOf\<close> and its message (\<open>None\<close> when the call succeeds);
  \<open>NewForConfig\<close> is the message of the error of \<open>kubernetes.NewForConfig\<close>;
  \<open>NamespacesList\<close> is the answer of the cluster, the names of the namespaces or the
  error by the cases of the type switch of line 74.
\<close>

datatype list_error =
  UrlError string
  | StatusError string
  | OtherError string

record api_reply =
  ClientConfig :: "(string \<times> string) option"
  NewForConfig :: "string option"
  NamespacesList :: "list_error + string list"

text \<open>
  \<open>fmt.Errorf\<close> with a format and no operand. A format without the byte \<open>%\<close> is the
  message as it stands; what the library makes of the verbs of any other format is
  the parameter \<open>verbs\<close>.
\<close>

definition Errorf :: "(string \<Rightarrow> string) \<Rightarrow> string \<Rightarrow> string" where
  "Errorf verbs format = (if CHR ''%'' \<in> set format then verbs format else format)"

definition getNamespacesInContextsCluster ::
  "(string \<Rightarrow> string) \<Rightarrow> (string \<Rightarrow> api_reply) \<Rightarrow> string \<Rightarrow> 'w
     \<Rightarrow> (string list \<times> string option, 'w) proc" where
  "getNamespacesInContextsCluster verbs api context w =
     (case ClientConfig (api context) of
        Some (ty, msg) \<Rightarrow>
          if ty = ''clientcmd.errConfigurationInvalid''
          then Return ([], Some (Errorf verbs ''error in config file'')) w
          else LogFatal msg
      | None \<Rightarrow>
          (case NewForConfig (api context) of
             Some msg \<Rightarrow> LogFatal msg
           | None \<Rightarrow>
               (case NamespacesList (api context) of
                  Inl (UrlError m) \<Rightarrow> Return ([], Some (Errorf verbs ''unreachable'')) w
                | Inl (StatusError m) \<Rightarrow>
                    Return ([], Some (Errorf verbs (''error from api: '' @ m))) w
                | Inl (OtherError m) \<Rightarrow> Return ([], Some (Errorf verbs ''error'')) w
                | Inr items \<Rightarrow> Return (items, None) w)))"

section \<open>The tree of main (lines 157--230)\<close>

text \<open>
  \<open>tview.TreeNode\<close> is declared in the toolkit, outside the repository. It is
  taken as the node the source uses it as: a value with the fields the source reads
  and writes, where each setter overwrites its field, \<open>Collapse\<close> clears
  \<open>expanded\<close> and \<open>AddChild\<close> appends. \<open>NewTreeNode\<close> gives an expanded, selectable
  node without children, which is why line 176 collapses each context node.
\<close>

datatype color = PrimaryTextColor | ColorGreen | ColorRed | ColorTurquoise

datatype reference = NoReference | RefContext Context | RefHelper referenceHelper

datatype TreeNode =
  TreeNode (node_text: string) (node_color: color) (node_expanded: bool)
    (node_selectable: bool) (node_reference: reference) (node_children: "TreeNode list")

definition NewTreeNode :: "string \<Rightarrow> TreeNode" where
  "NewTreeNode t = TreeNode t PrimaryTextColor True True NoReference []"

fun SetText :: "string \<Rightarrow> TreeNode \<Rightarrow> TreeNode" where
  "SetText t' (TreeNode t c e s r ch) = TreeNode t' c e s r ch"

fun SetColor :: "color \<Rightarrow> TreeNode \<Rightarrow> TreeNode" where
  "SetColor c' (TreeNode t c e s r ch) = TreeNode t c' e s r ch"

fun SetExpanded :: "bool \<Rightarrow> TreeNode \<Rightarrow> TreeNode" where
  "SetExpanded e' (TreeNode t c e s r ch) = TreeNode t c e' s r ch"

fun SetSelectable :: "bool \<Rightarrow> TreeNode \<Rightarrow> TreeNode" where
  "SetSelectable s' (TreeNode t c e s r ch) = TreeNode t c e s' r ch"

fun SetReference :: "reference \<Rightarrow> TreeNode \<Rightarrow> TreeNode" where
  "SetReference r' (TreeNode t c e s r ch) = TreeNode t c e s r' ch"

fun AddChild :: "TreeNode \<Rightarrow> TreeNode \<Rightarrow> TreeNode" where
  "AddChild n (TreeNode t c e s r ch) = TreeNode t c e s r (ch @ [n])"

definition Collapse :: "TreeNode \<Rightarrow> TreeNode" where
  "Collapse n = SetExpanded False n"

definition IsExpanded :: "TreeNode \<Rightarrow> bool" where
  "IsExpanded n = node_expanded n"

definition GetReference :: "TreeNode \<Rightarrow> reference" where
  "GetReference n = node_reference n"

text \<open>
  The state of the interactive session. \<open>contextNodes\<close> are the children of
  \<open>nodeRoot\<close>, in the order of line 219; a node is identified by its position there.
  \<open>expandedNode\<close> is \<open>None\<close> while the variable points to the node allocated by
  \<open>new(tview.TreeNode)\<close> (line 169), which is no node of the tree.
  \<open>highlightNode\<close> is the root or the child \<open>j\<close> of context node \<open>i\<close>.
  \<open>requests\<close> is no variable of the source: it records, oldest first, the context
  names with which line 183 has called \<open>getNamespacesInContextsCluster\<close>.
\<close>

datatype node_ref = RootNode | NamespaceNode nat nat

record session =
  contextNodes :: "TreeNode list"
  expandedNode :: "nat option"
  highlightNode :: node_ref
  requests :: "string list"

definition nodeRoot :: "session \<Rightarrow> TreeNode" where
  "nodeRoot s =
     TreeNode ''Contexts'' PrimaryTextColor True False NoReference (contextNodes s)"

text \<open>The body of the loop of line 173, up to the handler.\<close>

definition newContextNode :: "config \<Rightarrow> Context \<Rightarrow> TreeNode" where
  "newContextNode kubeconfig thisContext =
     (let nodeContextName =
            Collapse (SetReference (RefContext thisContext)
              (NewTreeNode ('' '' @ Name thisContext)))
      in if Name thisContext = ActiveContext kubeconfig
         then SetText ('' '' @ Name thisContext @ '' (active)'')
                (SetColor ColorGreen nodeContextName)
         else nodeContextName)"

definition buildTree :: "config \<Rightarrow> session" where
  "buildTree kubeconfig =
     \<lparr>contextNodes = map (newContextNode kubeconfig) (Contexts kubeconfig),
      expandedNode = None,
      highlightNode = RootNode,
      requests = []\<rparr>"

text \<open>
  The loop of lines 202--216 on context node \<open>i\<close>: one new child per namespace, and
  the child named as the context's active namespace becomes \<open>highlightNode\<close>.
\<close>

fun addNamespaces ::
  "Context \<Rightarrow> nat \<Rightarrow> string list \<Rightarrow> TreeNode \<times> node_ref \<Rightarrow> TreeNode \<times> node_ref" where
  "addNamespaces context i [] (n, h) = (n, h)"
| "addNamespaces context i (thisNamespace # rest) (n, h) =
     (let nodeNamespace =
            SetReference
              (RefHelper \<lparr>rh_context = Name context, rh_namespace = thisNamespace\<rparr>)
              (NewTreeNode ('' '' @ thisNamespace))
      in if thisNamespace = ActiveNamespace (Attributes context)
         then addNamespaces context i rest
                (AddChild (SetColor ColorGreen nodeNamespace) n,
                 NamespaceNode i (length (node_children n)))
         else addNamespaces context i rest (AddChild nodeNamespace n, h))"

text \<open>
  The handler of context node \<open>i\<close> (lines 181--217), in the order of the source:
  the label and colour for the result of the listing (lines 184--194), the toggle of
  \<open>expanded\<close> with the collapse of the node expanded before (lines 195--200), the
  new children (lines 202--216).
\<close>

definition markNode :: "config \<Rightarrow> Context \<Rightarrow> string option \<Rightarrow> TreeNode \<Rightarrow> TreeNode" where
  "markNode kubeconfig context getNamespaceError n =
     (case getNamespaceError of
        Some e \<Rightarrow> SetText ('' '' @ Name context @ '' ('' @ e @ '')'') (SetColor ColorRed n)
      | None \<Rightarrow>
          if Name context = ActiveContext kubeconfig
          then SetText ('' '' @ Name context @ '' (active)'') (SetColor ColorGreen n)
          else SetColor ColorTurquoise n)"

definition toggleExpanded :: "nat \<Rightarrow> session \<Rightarrow> session" where
  "toggleExpanded i s =
     (let n = contextNodes s ! i;
          n' = SetExpanded (\<not> IsExpanded n) n;
          nodes = (contextNodes s)[i := n']
      in if IsExpanded n' \<and> expandedNode s \<noteq> Some i
         then s\<lparr>contextNodes :=
                   (case expandedNode s of
                      None \<Rightarrow> nodes
                    | Some j \<Rightarrow> nodes[j := Collapse (nodes ! j)]),
                 expandedNode := Some i\<rparr>
         else s\<lparr>contextNodes := nodes\<rparr>)"

definition populate :: "Context \<Rightarrow> nat \<Rightarrow> string list \<Rightarrow> session \<Rightarrow> session" where
  "populate context i namespaces s =
     (let r = addNamespaces context i namespaces (contextNodes s ! i, highlightNode s)
      in s\<lparr>contextNodes := (contextNodes s)[i := fst r], highlightNode := snd r\<rparr>)"

definition contextSelected ::
  "(string \<Rightarrow> string) \<Rightarrow> config \<Rightarrow> (string \<Rightarrow> api_reply) \<Rightarrow> nat \<Rightarrow> session
     \<Rightarrow> (unit, session) proc" where
  "contextSelected verbs kubeconfig api i s =
     (case GetReference (contextNodes s ! i) of
        RefContext context \<Rightarrow>
          (case getNamespacesInContextsCluster verbs api (Name context)
                  (s\<lparr>requests := requests s @ [Name context]\<rparr>) of
             Return (namespacesInThisContextsCluster, getNamespaceError) s1 \<Rightarrow>
               Return ()
                 (populate context i namespacesInThisContextsCluster
                   (toggleExpanded i
                     (s1\<lparr>contextNodes := (contextNodes s1)
                           [i := markNode kubeconfig context getNamespaceError
                                   (contextNodes s1 ! i)]\<rparr>)))
           | Exit code s1 \<Rightarrow> Exit code s1
           | LogFatal msg \<Rightarrow> LogFatal msg
           | Panic msg \<Rightarrow> Panic msg)
      | other \<Rightarrow> Panic ''interface conversion'')"

text \<open>
  An event of the session: the selection of context node \<open>i\<close>, together with what
  the clusters answer at that moment. A position without a node has no handler.
  The selection of a namespace node (lines 211--214) stops the application and calls
  \<open>switchContext\<close>; it ends the session and is no event of it.
\<close>

datatype event = Select nat "string \<Rightarrow> api_reply"

fun handle ::
  "(string \<Rightarrow> string) \<Rightarrow> config \<Rightarrow> event \<Rightarrow> session \<Rightarrow> (unit, session) proc" where
  "handle verbs kubeconfig (Select i api) s =
     (if i < length (contextNodes s) then contextSelected verbs kubeconfig api i s
      else Return () s)"

fun run ::
  "(string \<Rightarrow> string) \<Rightarrow> config \<Rightarrow> event list \<Rightarrow> session \<Rightarrow> (unit, session) proc" where
  "run verbs kubeconfig [] s = Return () s"
| "run verbs kubeconfig (e # es) s =
     (case handle verbs kubeconfig e s of
        Return u s' \<Rightarrow> run verbs kubeconfig es s'
      | other \<Rightarrow> other)"

text \<open>
  \<open>main\<close> up to the start of the event loop (lines 157--225): the loaded
  configuration, the world and the tree with which the session starts.
\<close>

definition main ::
  "('fs, 'x, 'r) library \<Rightarrow> string list \<Rightarrow> 'fs world
     \<Rightarrow> (config \<times> session, 'fs world) proc" where
  "main L Args w =
     (case loadConfig L w of
        Return kubeconfig w1 \<Rightarrow>
          (case (if length Args > 1 then quickSwitch L kubeconfig Args w1
                 else Return () w1) of
             Return u w2 \<Rightarrow> Return (kubeconfig, buildTree kubeconfig) w2
           | Exit code w2 \<Rightarrow> Exit code w2
           | LogFatal msg \<Rightarrow> LogFatal msg
           | Panic msg \<Rightarrow> Panic msg)
      | Exit code w1 \<Rightarrow> Exit code w1
      | LogFatal msg \<Rightarrow> LogFatal msg
      | Panic msg \<Rightarrow> Panic msg)"

section \<open>Two readers of one document\<close>

text \<open>
  \<open>loadConfig\<close> reads the file with the YAML library, \<open>switchContext\<close> with
  \<open>clientcmd\<close>. The two results describe the same document when they name the same
  current context and the same contexts, each with the same namespace.
\<close>

definition same_document :: "config \<Rightarrow> ('x, 'r) api_Config \<Rightarrow> bool" where
  "same_document kubeconfig raw \<longleftrightarrow>
     ActiveContext kubeconfig = CurrentContext raw \<and>
     set (map Name (Contexts kubeconfig)) = dom (api_Contexts raw) \<and>
     (\<forall>e \<in> set (Contexts kubeconfig). \<forall>c.
        api_Contexts raw (Name e) = Some c \<longrightarrow> ActiveNamespace (Attributes e) = Namespace c)"

text \<open>What lines 98--99 make of the raw structure when the entry \<open>c\<close> is found.\<close>

definition assigned ::
  "('x, 'r) api_Config \<Rightarrow> referenceHelper \<Rightarrow> 'x api_Context \<Rightarrow> ('x, 'r) api_Config" where
  "assigned raw rh c =
     raw\<lparr>CurrentContext := rh_context rh,
         api_Contexts := (api_Contexts raw)(rh_context rh \<mapsto> c\<lparr>Namespace := rh_namespace rh\<rparr>)\<rparr>"

section \<open>A library instance in memory\<close>

text \<open>
  An instance of the library parameters on which the theorems can be run. The file
  system is one document: the raw structure that \<open>clientcmd\<close> reads and writes,
  beside the order in which the file lists its contexts. Other settings of a context
  are the name of its cluster, other settings of the document are the cluster
  definitions. The bytes that \<open>ReadFile\<close> gives are the current context on the
  first line and one line \<open>name/namespace\<close> per context; \<open>Unmarshal\<close> parses these
  lines back.
\<close>

record document =
  d_order :: "string list"
  d_raw :: "(string, string list) api_Config"

definition mem_RawConfig :: "document \<Rightarrow> string + (string, string list) api_Config" where
  "mem_RawConfig d = Inr (d_raw d)"

definition mem_ModifyConfig ::
  "(string, string list) api_Config \<Rightarrow> document \<Rightarrow> string + document" where
  "mem_ModifyConfig cfg d = Inr (d\<lparr>d_raw := cfg\<rparr>)"

definition mem_ReadFile :: "document \<Rightarrow> string + string" where
  "mem_ReadFile d =
     Inr (CurrentContext (d_raw d) @
          concat (map (\<lambda>n. [CHR 0x0A] @ n @ ''/'' @
                         (case api_Contexts (d_raw d) n of
                            None \<Rightarrow> []
                          | Some c \<Rightarrow> Namespace c))
                    (d_order d)))"

definition mem_line :: "string \<Rightarrow> Context" where
  "mem_line l =
     (let parts = Split l (CHR ''/'')
      in \<lparr>Name = hd parts,
          Attributes = \<lparr>ActiveNamespace = (if length parts = 2 then parts ! 1 else [])\<rparr>\<rparr>)"

definition mem_Unmarshal :: "string \<Rightarrow> string + config" where
  "mem_Unmarshal content =
     (let ls = Split content (CHR 0x0A)
      in Inr \<lparr>ActiveContext = hd ls, Contexts = map mem_line (tl ls)\<rparr>)"

definition memory :: "(document, string, string list) library" where
  "memory =
     \<lparr>ReadFile = mem_ReadFile, Unmarshal = mem_Unmarshal,
      RawConfig = mem_RawConfig, ModifyConfig = mem_ModifyConfig\<rparr>"

text \<open>
  A document with two contexts and the world that holds it; the same document
  without a current context; the file of length zero.
\<close>

definition ctx0_entry :: "string api_Context" where
  "ctx0_entry = \<lparr>Namespace = ''default'', ctx_rest = ''east''\<rparr>"

definition ctxA_entry :: "string api_Context" where
  "ctxA_entry = \<lparr>Namespace = ''kube-system'', ctx_rest = ''west''\<rparr>"

definition two_contexts :: document where
  "two_contexts =
     \<lparr>d_order = [''ctx0'', ''ctxA''],
      d_raw = \<lparr>CurrentContext = ''ctx0'',
               api_Contexts = [''ctx0'' \<mapsto> ctx0_entry, ''ctxA'' \<mapsto> ctxA_entry],
               cfg_rest = [''east'', ''west'']\<rparr>\<rparr>"

definition world0 :: "document world" where
  "world0 = \<lparr>fs = two_contexts, logged = []\<rparr>"

definition kubeconfig0 :: config where
  "kubeconfig0 =
     \<lparr>ActiveContext = ''ctx0'',
      Contexts =
        [\<lparr>Name = ''ctx0'', Attributes = \<lparr>ActiveNamespace = ''default''\<rparr>\<rparr>,
         \<lparr>Name = ''ctxA'', Attributes = \<lparr>ActiveNamespace = ''kube-system''\<rparr>\<rparr>]\<rparr>"

definition no_current :: "document world" where
  "no_current =
     \<lparr>fs = two_contexts\<lparr>d_raw := (d_raw two_contexts)\<lparr>CurrentContext := []\<rparr>\<rparr>, logged = []\<rparr>"

definition empty_file :: "document world" where
  "empty_file =
     \<lparr>fs = \<lparr>d_order = [],
              d_raw = \<lparr>CurrentContext = [], api_Contexts = Map.empty, cfg_rest = []\<rparr>\<rparr>,
      logged = []\<rparr>"

text \<open>Answers of the client libraries used to run the session.\<close>

definition reply_ok :: "string list \<Rightarrow> string \<Rightarrow> api_reply" where
  "reply_ok items context =
     \<lparr>ClientConfig = None, NewForConfig = None, NamespacesList = Inr items\<rparr>"

definition reply_unreachable :: "string \<Rightarrow> api_reply" where
  "reply_unreachable context =
     \<lparr>ClientConfig = None, NewForConfig = None,
      NamespacesList = Inl (UrlError ''dial tcp: i/o timeout'')\<rparr>"

definition reply_config_unreadable :: "string \<Rightarrow> api_reply" where
  "reply_config_unreadable context =
     \<lparr>ClientConfig = Some (''*os.PathError'', ''stat /home/user/.kube/config: no such file or directory''),
      NewForConfig = None, NamespacesList = Inr []\<rparr>"

definition reply_clientset_fails :: "string \<Rightarrow> api_reply" where
  "reply_clientset_fails context =
     \<lparr>ClientConfig = None,
      NewForConfig = Some ''host must be a URL or a host:port pair'',
      NamespacesList = Inr [''default'']\<rparr>"

definition reply_config_invalid :: "string \<Rightarrow> api_reply" where
  "reply_config_invalid context =
     \<lparr>ClientConfig = Some (''clientcmd.errConfigurationInvalid'', ''invalid configuration''),
      NewForConfig = None, NamespacesList = Inr [''default'']\<rparr>"

section \<open>A library instance that writes from the structure\<close>

text \<open>
  A second instance of the library parameters, closer to \<open>clientcmd\<close>. A file holds
  the raw structure, the order in which it lists its contexts, and the keys that
  the raw structure does not carry, each with its value. \<open>ModifyConfig\<close> writes
  the file from the structure it is given: the contexts sorted by name, and none of
  the keys that the structure does not carry. The bytes of the file are those of
  the first instance, followed by one line \<open>#key=value\<close> per such key, which
  \<open>Unmarshal\<close> skips as the YAML library skips a key it has no field for.
\<close>

record kubefile =
  k_order :: "string list"
  k_raw :: "(string, string list) api_Config"
  k_unknown :: "(string \<times> string) list"

definition typed_RawConfig :: "kubefile \<Rightarrow> string + (string, string list) api_Config" where
  "typed_RawConfig f = Inr (k_raw f)"

definition typed_ModifyConfig ::
  "(string, string list) api_Config \<Rightarrow> kubefile \<Rightarrow> string + kubefile" where
  "typed_ModifyConfig cfg f =
     Inr \<lparr>k_order = sort (filter (\<lambda>n. api_Contexts cfg n \<noteq> None) (k_order f)),
          k_raw = cfg,
          k_unknown = []\<rparr>"

definition typed_ReadFile :: "kubefile \<Rightarrow> string + string" where
  "typed_ReadFile f =
     Inr (CurrentContext (k_raw f) @
          concat (map (\<lambda>n. [CHR 0x0A] @ n @ ''/'' @
                         (case api_Contexts (k_raw f) n of
                            None \<Rightarrow> []
                          | Some c \<Rightarrow> Namespace c))
                    (k_order f)) @
          concat (map (\<lambda>(k, v). [CHR 0x0A] @ ''#'' @ k @ ''='' @ v) (k_unknown f)))"

definition typed_Unmarshal :: "string \<Rightarrow> string + config" where
  "typed_Unmarshal content =
     (let ls = Split content (CHR 0x0A)
      in Inr \<lparr>ActiveContext = hd ls,
              Contexts = map mem_line (filter (\<lambda>l. take 1 l \<noteq> ''#'') (tl ls))\<rparr>)"

definition typed_library :: "(kubefile, string, string list) library" where
  "typed_library =
     \<lparr>ReadFile = typed_ReadFile, Unmarshal = typed_Unmarshal,
      RawConfig = typed_RawConfig, ModifyConfig = typed_ModifyConfig\<rparr>"

text \<open>
  A file with the two contexts, \<open>ctxA\<close> listed first, and one key that the raw
  structure does not carry; the configuration loaded from it; the target
  \<open>ctxA/nsB\<close>; the file, the world and the loaded configuration after the switch
  to that target.
\<close>

definition file0 :: kubefile where
  "file0 =
     \<lparr>k_order = [''ctxA'', ''ctx0''],
      k_raw = d_raw two_contexts,
      k_unknown = [(''owner'', ''platform'')]\<rparr>"

definition file_world :: "kubefile world" where
  "file_world = \<lparr>fs = file0, logged = []\<rparr>"

definition file_kubeconfig :: config where
  "file_kubeconfig =
     \<lparr>ActiveContext = ''ctx0'',
      Contexts =
        [\<lparr>Name = ''ctxA'', Attributes = \<lparr>ActiveNamespace = ''kube-system''\<rparr>\<rparr>,
         \<lparr>Name = ''ctx0'', Attributes = \<lparr>ActiveNamespace = ''default''\<rparr>\<rparr>]\<rparr>"

definition to_ctxA_nsB :: referenceHelper where
  "to_ctxA_nsB = \<lparr>rh_context = ''ctxA'', rh_namespace = ''nsB''\<rparr>"

definition switched_file :: kubefile where
  "switched_file =
     \<lparr>k_order = [''ctx0'', ''ctxA''],
      k_raw = assigned (d_raw two_contexts) to_ctxA_nsB ctxA_entry,
      k_unknown = []\<rparr>"

definition switched_world :: "kubefile world" where
  "switched_world = \<lparr>fs = switched_file, logged = [''switched to ctxA/nsB'']\<rparr>"

definition switched_kubeconfig :: config where
  "switched_kubeconfig =
     \<lparr>ActiveContext = ''ctxA'',
      Contexts =
        [\<lparr>Name = ''ctx0'', Attributes = \<lparr>ActiveNamespace = ''default''\<rparr>\<rparr>,
         \<lparr>Name = ''ctxA'', Attributes = \<lparr>ActiveNamespace = ''nsB''\<rparr>\<rparr>]\<rparr>"

text \<open>The session of \<open>kubeconfig0\<close> after a list of events.\<close>

definition after :: "event list \<Rightarrow> session" where
  "after evs =
     (case run id kubeconfig0 evs (buildTree kubeconfig0) of
        Return u s \<Rightarrow> s
      | other \<Rightarrow> buildTree kubeconfig0)"

section \<open>Observations and invariant of the session\<close>

text \<open>
  What is seen of a session that goes on: the requests made so far and, for each
  context node, whether it is expanded and how many children it has.
\<close>

definition observe :: "(unit, session) proc \<Rightarrow> (string list \<times> (bool \<times> nat) list) option" where
  "observe p =
     (case p of
        Return u s \<Rightarrow>
          Some (requests s,
                map (\<lambda>n. (IsExpanded n, length (node_children n))) (contextNodes s))
      | other \<Rightarrow> None)"

text \<open>
  The invariant of the session: the context nodes are those of the configuration, in
  order, each with its entry as reference, and a node that is expanded is the one
  \<open>expandedNode\<close> points to.
\<close>

definition tree_inv :: "config \<Rightarrow> session \<Rightarrow> bool" where
  "tree_inv kubeconfig s \<longleftrightarrow>
     length (contextNodes s) = length (Contexts kubeconfig) \<and>
     (\<forall>i < length (contextNodes s).
        node_reference (contextNodes s ! i) = RefContext (Contexts kubeconfig ! i) \<and>
        (node_expanded (contextNodes s ! i) \<longrightarrow> expandedNode s = Some i))"

section \<open>Properties\<close>

subsection \<open>contextExists\<close>

lemma rangeContexts_iff: "rangeContexts context cs \<longleftrightarrow> context \<in> set (map Name cs)"
  by (induction cs) auto

text \<open>
  C8. \<open>contextExists name\<close> is true exactly when \<open>name\<close> is the name of an entry of the
  loaded configuration's context list; it is false for every other string, the empty
  string included.
\<close>

theorem contextExists_iff_listed:
  "contextExists kubeconfig name \<longleftrightarrow> name \<in> set (map Name (Contexts kubeconfig))"
  by (simp add: contextExists_def rangeContexts_iff)

text \<open>A listed name, a name that is not listed, and the empty string.\<close>

theorem contextExists_witness:
  "contextExists kubeconfig0 ''ctxA'' \<and> \<not> contextExists kubeconfig0 ''ctxB'' \<and>
   \<not> contextExists kubeconfig0 []"
  using contextExists_iff_listed [of kubeconfig0 "''ctxA''"]
        contextExists_iff_listed [of kubeconfig0 "''ctxB''"]
        contextExists_iff_listed [of kubeconfig0 "[]"]
  by (simp add: kubeconfig0_def)

subsection \<open>switchContext, loadConfig and main\<close>

lemma switchContext_absent:
  "RawConfig L (fs w) = Inr raw \<Longrightarrow> api_Contexts raw (rh_context rh) = None \<Longrightarrow>
   switchContext L rh w = Panic ''invalid memory address or nil pointer dereference''"
  by (simp add: switchContext_def)

lemma switchContext_present:
  "RawConfig L (fs w) = Inr raw \<Longrightarrow> api_Contexts raw (rh_context rh) = Some c \<Longrightarrow>
   switchContext L rh w =
     (case ModifyConfig L (assigned raw rh c) (fs w) of
        Inl err \<Rightarrow> LogFatal err
      | Inr fs' \<Rightarrow>
          Return () (w\<lparr>fs := fs',
            logged := logged w @ [''switched to '' @ rh_context rh @ ''/'' @ rh_namespace rh]\<rparr>))"
  by (simp add: switchContext_def assigned_def)



text \<open>
  C1, as the code has it. Let \<open>clientcmd\<close> read the configuration file as the raw
  structure \<open>raw\<close>, and let the target's context be an entry of it. \<open>switchContext\<close>
  hands to \<open>ModifyConfig\<close> that structure with the target's context as current
  context and the target's namespace in that context's entry, nothing else
  changed, and returns when the write succeeds. When the library reads back the
  structure it was handed and the YAML reader sees the same document in the
  written file, \<open>loadConfig\<close> then yields a configuration with the target's context
  as active context and the target's namespace recorded for it, and in the raw
  structure of the written file the other contexts, the other settings of the
  switched context and the rest of the structure are those of \<open>raw\<close>. Nothing is
  said of what the file holds beside the raw structure.
\<close>

theorem switch_then_load:
  assumes valid: "RawConfig L (fs w) = Inr raw"
      and present: "api_Contexts raw (rh_context rh) = Some c"
      and written: "ModifyConfig L (assigned raw rh c) (fs w) = Inr fs'"
      and readback: "RawConfig L fs' = Inr (assigned raw rh c)"
      and content: "ReadFile L fs' = Inr content" "0 < length content"
        "Unmarshal L content = Inr kubeconfig"
      and same: "\<And>cfg. RawConfig L fs' = Inr cfg \<Longrightarrow> same_document kubeconfig cfg"
      and w': "w' = w\<lparr>fs := fs',
                 logged := logged w @ [''switched to '' @ rh_context rh @ ''/'' @ rh_namespace rh]\<rparr>"
  shows "switchContext L rh w = Return () w' \<and>
         loadConfig L w' = Return kubeconfig w' \<and>
         ActiveContext kubeconfig = rh_context rh \<and>
         (\<exists>e \<in> set (Contexts kubeconfig). Name e = rh_context rh) \<and>
         (\<forall>e \<in> set (Contexts kubeconfig).
            Name e = rh_context rh \<longrightarrow> ActiveNamespace (Attributes e) = rh_namespace rh) \<and>
         (\<exists>raw'. RawConfig L (fs w') = Inr raw' \<and>
            CurrentContext raw' = rh_context rh \<and>
            api_Contexts raw' (rh_context rh) = Some (c\<lparr>Namespace := rh_namespace rh\<rparr>) \<and>
            (\<forall>n. n \<noteq> rh_context rh \<longrightarrow> api_Contexts raw' n = api_Contexts raw n) \<and>
            cfg_rest raw' = cfg_rest raw)"
proof -
  have sw: "switchContext L rh w = Return () w'"
    using switchContext_present [OF valid present] written by (simp add: w')
  have fs': "fs w' = fs'" by (simp add: w')
  have ld: "loadConfig L w' = Return kubeconfig w'"
    using content by (simp add: loadConfig_def fs')
  from same [OF readback] have sd: "same_document kubeconfig (assigned raw rh c)" .
  have a1: "CurrentContext (assigned raw rh c) = rh_context rh"
    and a2: "api_Contexts (assigned raw rh c) (rh_context rh) = Some (c\<lparr>Namespace := rh_namespace rh\<rparr>)"
    and a3: "\<forall>n. n \<noteq> rh_context rh \<longrightarrow> api_Contexts (assigned raw rh c) n = api_Contexts raw n"
    and a4: "cfg_rest (assigned raw rh c) = cfg_rest raw"
    by (simp_all add: assigned_def)
  from sd a1 have ac: "ActiveContext kubeconfig = rh_context rh"
    by (simp add: same_document_def)
  from sd a2 have "rh_context rh \<in> set (map Name (Contexts kubeconfig))"
    by (auto simp: same_document_def)
  then have ex: "\<exists>e \<in> set (Contexts kubeconfig). Name e = rh_context rh"
    by auto
  from sd a2 have al: "\<forall>e \<in> set (Contexts kubeconfig).
      Name e = rh_context rh \<longrightarrow> ActiveNamespace (Attributes e) = rh_namespace rh"
    by (auto simp: same_document_def)
  from readback fs' a1 a2 a3 a4
  have "\<exists>raw'. RawConfig L (fs w') = Inr raw' \<and>
            CurrentContext raw' = rh_context rh \<and>
            api_Contexts raw' (rh_context rh) = Some (c\<lparr>Namespace := rh_namespace rh\<rparr>) \<and>
            (\<forall>n. n \<noteq> rh_context rh \<longrightarrow> api_Contexts raw' n = api_Contexts raw n) \<and>
            cfg_rest raw' = cfg_rest raw"
    by simp
  with sw ld ac ex al show ?thesis by blast
qed

text \<open>The switch of \<open>file0\<close> to \<open>ctxA/nsB\<close> on the library that writes from the structure.\<close>

theorem switch_then_load_witness:
  "RawConfig typed_library (fs file_world) = Inr (k_raw file0) \<and>
   api_Contexts (k_raw file0) (rh_context to_ctxA_nsB) = Some ctxA_entry \<and>
   ModifyConfig typed_library (assigned (k_raw file0) to_ctxA_nsB ctxA_entry) (fs file_world) =
     Inr switched_file \<and>
   RawConfig typed_library switched_file =
     Inr (assigned (k_raw file0) to_ctxA_nsB ctxA_entry) \<and>
   ReadFile typed_library switched_file = Inr (''ctxA'' @ [CHR 0x0A] @ ''ctx0/default'' @ [CHR 0x0A] @ ''ctxA/nsB'') \<and>
   Unmarshal typed_library (''ctxA'' @ [CHR 0x0A] @ ''ctx0/default'' @ [CHR 0x0A] @ ''ctxA/nsB'') =
     Inr switched_kubeconfig \<and>
   same_document switched_kubeconfig (assigned (k_raw file0) to_ctxA_nsB ctxA_entry) \<and>
   switchContext typed_library to_ctxA_nsB file_world = Return () switched_world \<and>
   loadConfig typed_library switched_world = Return switched_kubeconfig switched_world \<and>
   ActiveContext switched_kubeconfig = ''ctxA'' \<and>
   map (\<lambda>e. (Name e, ActiveNamespace (Attributes e))) (Contexts switched_kubeconfig) =
     [(''ctx0'', ''default''), (''ctxA'', ''nsB'')] \<and>
   (\<exists>raw'. RawConfig typed_library (fs switched_world) = Inr raw' \<and>
      CurrentContext raw' = ''ctxA'' \<and>
      api_Contexts raw' ''ctxA'' = Some (ctxA_entry\<lparr>Namespace := ''nsB''\<rparr>) \<and>
      (\<forall>n. n \<noteq> ''ctxA'' \<longrightarrow> api_Contexts raw' n = api_Contexts (k_raw file0) n) \<and>
      cfg_rest raw' = cfg_rest (k_raw file0))"
proof -
  let ?bytes = "''ctxA'' @ [CHR 0x0A] @ ''ctx0/default'' @ [CHR 0x0A] @ ''ctxA/nsB''"
  have h1: "RawConfig typed_library (fs file_world) = Inr (k_raw file0)"
    by (simp add: typed_library_def typed_RawConfig_def file_world_def)
  have h2: "api_Contexts (k_raw file0) (rh_context to_ctxA_nsB) = Some ctxA_entry"
    by (simp add: file0_def two_contexts_def to_ctxA_nsB_def)
  have h3: "ModifyConfig typed_library (assigned (k_raw file0) to_ctxA_nsB ctxA_entry)
              (fs file_world) = Inr switched_file"
    by (simp add: typed_library_def typed_ModifyConfig_def file_world_def file0_def
          switched_file_def to_ctxA_nsB_def two_contexts_def assigned_def)
  have h4: "RawConfig typed_library switched_file =
              Inr (assigned (k_raw file0) to_ctxA_nsB ctxA_entry)"
    by (simp add: typed_library_def typed_RawConfig_def switched_file_def file0_def)
  have h5: "ReadFile typed_library switched_file = Inr ?bytes"
    by (simp add: typed_library_def typed_ReadFile_def switched_file_def to_ctxA_nsB_def
          two_contexts_def assigned_def ctx0_entry_def ctxA_entry_def)
  have h6: "0 < length ?bytes" by simp
  have h7: "Unmarshal typed_library ?bytes = Inr switched_kubeconfig"
    by (simp add: typed_library_def typed_Unmarshal_def mem_line_def switched_kubeconfig_def
          Split.simps)
  have sd: "same_document switched_kubeconfig (assigned (k_raw file0) to_ctxA_nsB ctxA_entry)"
    by (auto simp: switched_kubeconfig_def file0_def two_contexts_def assigned_def
          to_ctxA_nsB_def same_document_def ctx0_entry_def ctxA_entry_def split: if_splits)
  have h8: "same_document switched_kubeconfig cfg"
    if "RawConfig typed_library switched_file = Inr cfg" for cfg
    using that h4 sd by simp
  have h9: "switched_world = file_world\<lparr>fs := switched_file,
              logged := logged file_world @
                [''switched to '' @ rh_context to_ctxA_nsB @ ''/'' @ rh_namespace to_ctxA_nsB]\<rparr>"
    by (simp add: switched_world_def file_world_def to_ctxA_nsB_def)
  have h10: "map (\<lambda>e. (Name e, ActiveNamespace (Attributes e))) (Contexts switched_kubeconfig) =
              [(''ctx0'', ''default''), (''ctxA'', ''nsB'')]"
    by (simp add: switched_kubeconfig_def)
  have rh: "rh_context to_ctxA_nsB = ''ctxA''" "rh_namespace to_ctxA_nsB = ''nsB''"
    by (simp_all add: to_ctxA_nsB_def)
  from switch_then_load [of typed_library file_world "k_raw file0" to_ctxA_nsB ctxA_entry
         switched_file ?bytes switched_kubeconfig switched_world,
         OF h1 h2 h3 h4 h5 h6 h7 h8 h9]
  show ?thesis using h1 h2 h3 h4 h5 h7 sd h10 rh by simp
qed

text \<open>
  C1 as stated fails for the fields that the raw structure does not carry: the file
  is valid, the target's context exists, the switch succeeds and the reloaded
  configuration has the target as active context, but the key \<open>owner\<close> of the file
  is gone from the written file.
\<close>

theorem unrecognized_key_lost_counterexample:
  "loadConfig typed_library file_world = Return file_kubeconfig file_world \<and>
   contextExists file_kubeconfig (rh_context to_ctxA_nsB) \<and>
   switchContext typed_library to_ctxA_nsB file_world = Return () switched_world \<and>
   loadConfig typed_library switched_world = Return switched_kubeconfig switched_world \<and>
   ActiveContext switched_kubeconfig = rh_context to_ctxA_nsB \<and>
   k_unknown (fs file_world) = [(''owner'', ''platform'')] \<and>
   k_unknown (fs switched_world) = []"
  by (simp add: loadConfig_def switchContext_def contextExists_def
        typed_library_def typed_ReadFile_def typed_Unmarshal_def typed_RawConfig_def
        typed_ModifyConfig_def mem_line_def file_world_def file0_def file_kubeconfig_def
        switched_world_def switched_file_def switched_kubeconfig_def to_ctxA_nsB_def
        two_contexts_def assigned_def ctx0_entry_def ctxA_entry_def Split.simps)

text \<open>
  C3. The configuration has no current context and the tool is called with the one
  argument \<open>ns1\<close>: the target names a context that the raw configuration lacks, and
  \<open>switchContext\<close> ends in the run-time panic of line 99, not in an error passed to
  \<open>log.Fatalln\<close>.
\<close>

theorem absent_context_panics:
  "main memory [''kubeswitch'', ''ns1''] no_current =
     Panic ''invalid memory address or nil pointer dereference''"
  by (simp add: main_def loadConfig_def quickSwitch_def switchContext_def exit0_def
        memory_def mem_ReadFile_def mem_Unmarshal_def mem_line_def mem_RawConfig_def
        no_current_def two_contexts_def ctx0_entry_def ctxA_entry_def Split.simps)

text \<open>
  C9. When the configuration file is read and has length zero, \<open>loadConfig\<close> ends
  the process through \<open>log.Fatalln\<close> with the error \<open>empty configuration file\<close>, and
  so does \<open>main\<close>, whatever the arguments: no tree is built.
\<close>

theorem empty_file_is_fatal:
  assumes "ReadFile L (fs w) = Inr content" and "length content = 0"
  shows "loadConfig L w = LogFatal ''empty configuration file'' \<and>
         main L Args w = LogFatal ''empty configuration file''"
  using assms by (simp add: loadConfig_def main_def)

text \<open>The file of length zero in the memory library.\<close>

theorem empty_file_is_fatal_witness:
  "ReadFile memory (fs empty_file) = Inr [] \<and> length ([] :: string) = 0 \<and>
   loadConfig memory empty_file = LogFatal ''empty configuration file'' \<and>
   main memory [''kubeswitch''] empty_file = LogFatal ''empty configuration file''"
  using empty_file_is_fatal [of memory empty_file "[]" "[''kubeswitch'']"]
  by (simp add: memory_def mem_ReadFile_def empty_file_def)

subsection \<open>quickSwitch\<close>

lemma Split_no_sep: "sep \<notin> set s \<Longrightarrow> Split s sep = [s]"
  by (subst Split.simps) simp

lemma Split_cut:
  assumes "sep \<notin> set p"
  shows "Split (p @ sep # q) sep = p # Split q sep"
proof -
  have tw: "takeWhile (\<lambda>x. x \<noteq> sep) (p @ sep # q) = p"
    using assms by (induction p) auto
  have dw: "dropWhile (\<lambda>x. x \<noteq> sep) (p @ sep # q) = sep # q"
    using assms by (induction p) auto
  show ?thesis
    by (subst Split.simps) (simp add: tw dw)
qed

lemma Split_one_sep:
  "sep \<notin> set p \<Longrightarrow> sep \<notin> set q \<Longrightarrow> Split (p @ sep # q) sep = [p, q]"
  by (simp add: Split_cut Split_no_sep)

lemma Split_not_Nil: "Split s sep \<noteq> []"
  by (subst Split.simps) simp

lemma length_Split_one: "length (Split s sep) = 1 \<longleftrightarrow> sep \<notin> set s"
proof
  assume l: "length (Split s sep) = 1"
  show "sep \<notin> set s"
  proof
    assume "sep \<in> set s"
    then have "Split s sep = takeWhile (\<lambda>x. x \<noteq> sep) s # Split (tl (dropWhile (\<lambda>x. x \<noteq> sep) s)) sep"
      by (subst Split.simps) simp
    with l Split_not_Nil [of "tl (dropWhile (\<lambda>x. x \<noteq> sep) s)" sep] show False
      by simp
  qed
next
  assume "sep \<notin> set s"
  then show "length (Split s sep) = 1" by (simp add: Split_no_sep)
qed

text \<open>
  C7. One command-line argument without the separator \<open>/\<close> is taken as a namespace
  of the active context: \<open>quickSwitch\<close> does what \<open>switchContext\<close> does for the
  target (active context of the loaded configuration, argument), then exits with
  status 0. With the argument \<open>ns1\<close> and the active context \<open>ctx0\<close> the target is
  (\<open>ctx0\<close>, \<open>ns1\<close>).
\<close>

theorem bare_namespace_targets_active_context:
  assumes "CHR ''/'' \<notin> set arg"
  shows "quickSwitch L kubeconfig [prog, arg] w =
           exit0 (switchContext L
             \<lparr>rh_context = ActiveContext kubeconfig, rh_namespace = arg\<rparr> w)"
  using assms by (simp add: quickSwitch_def Split_no_sep)

text \<open>The argument \<open>ns1\<close> with the active context \<open>ctx0\<close>, run on the memory library.\<close>

theorem bare_namespace_witness:
  "CHR ''/'' \<notin> set ''ns1'' \<and>
   ActiveContext kubeconfig0 = ''ctx0'' \<and>
   quickSwitch memory kubeconfig0 [''kubeswitch'', ''ns1''] world0 =
     exit0 (switchContext memory \<lparr>rh_context = ''ctx0'', rh_namespace = ''ns1''\<rparr> world0) \<and>
   quickSwitch memory kubeconfig0 [''kubeswitch'', ''ns1''] world0 =
     Exit 0 \<lparr>fs = two_contexts\<lparr>d_raw := assigned (d_raw two_contexts)
                    \<lparr>rh_context = ''ctx0'', rh_namespace = ''ns1''\<rparr> ctx0_entry\<rparr>,
             logged = [''switched to ctx0/ns1'']\<rparr>"
  using bare_namespace_targets_active_context
          [of "''ns1''" memory kubeconfig0 "''kubeswitch''" world0]
  by (simp add: kubeconfig0_def exit0_def switchContext_def memory_def mem_RawConfig_def
        mem_ModifyConfig_def world0_def two_contexts_def assigned_def)

text \<open>
  C6, as the code has it. One command-line argument with exactly one separator,
  \<open>part1/part2\<close>: when \<open>part1\<close> names an existing context, \<open>quickSwitch\<close> does
  what \<open>switchContext\<close> does for the target (\<open>part1\<close>, \<open>part2\<close>) and exits with
  status 0, whether or not \<open>part2\<close> is empty; when \<open>part1\<close> names no existing
  context (as the empty \<open>part1\<close> does unless a context has the empty name), it
  returns without a target and the interactive mode follows.
\<close>

theorem context_slash_namespace:
  assumes "CHR ''/'' \<notin> set part1" and "CHR ''/'' \<notin> set part2"
  shows "quickSwitch L kubeconfig [prog, part1 @ ''/'' @ part2] w =
           (if contextExists kubeconfig part1
            then exit0 (switchContext L \<lparr>rh_context = part1, rh_namespace = part2\<rparr> w)
            else Return () w)"
  using assms by (simp add: quickSwitch_def Split_one_sep)

text \<open>The arguments \<open>ctxA/nsB\<close> (existing context) and \<open>ctxB/nsB\<close> (no such context).\<close>

theorem context_slash_namespace_witness:
  "CHR ''/'' \<notin> set ''ctxA'' \<and> CHR ''/'' \<notin> set ''nsB'' \<and> CHR ''/'' \<notin> set ''ctxB'' \<and>
   contextExists kubeconfig0 ''ctxA'' \<and> \<not> contextExists kubeconfig0 ''ctxB'' \<and>
   quickSwitch memory kubeconfig0 [''kubeswitch'', ''ctxA/nsB''] world0 =
     Exit 0 \<lparr>fs = two_contexts\<lparr>d_raw := assigned (d_raw two_contexts)
                    \<lparr>rh_context = ''ctxA'', rh_namespace = ''nsB''\<rparr> ctxA_entry\<rparr>,
             logged = [''switched to ctxA/nsB'']\<rparr> \<and>
   quickSwitch memory kubeconfig0 [''kubeswitch'', ''ctxB/nsB''] world0 = Return () world0"
  using context_slash_namespace [of "''ctxA''" "''nsB''" memory kubeconfig0 "''kubeswitch''" world0]
        context_slash_namespace [of "''ctxB''" "''nsB''" memory kubeconfig0 "''kubeswitch''" world0]
  by (simp add: contextExists_def kubeconfig0_def exit0_def switchContext_def memory_def
        mem_RawConfig_def mem_ModifyConfig_def world0_def two_contexts_def assigned_def)

text \<open>
  C6 as stated fails: the argument \<open>ctxA/\<close> splits into \<open>ctxA\<close> and the empty
  string, and the target (\<open>ctxA\<close>, empty namespace) is produced and written.
\<close>

theorem empty_namespace_part_counterexample:
  "quickSwitch memory kubeconfig0 [''kubeswitch'', ''ctxA/''] world0 =
     Exit 0 \<lparr>fs = two_contexts\<lparr>d_raw := assigned (d_raw two_contexts)
                    \<lparr>rh_context = ''ctxA'', rh_namespace = []\<rparr> ctxA_entry\<rparr>,
             logged = [''switched to ctxA/'']\<rparr>"
  by (simp add: quickSwitch_def Split.simps contextExists_def kubeconfig0_def exit0_def
        switchContext_def memory_def mem_RawConfig_def mem_ModifyConfig_def world0_def
        two_contexts_def assigned_def)

text \<open>
  C10. With one argument without separator the target takes the active context of
  the loaded configuration without a \<open>contextExists\<close> check: also when the active
  context names no entry of the context list, \<open>quickSwitch\<close> does what
  \<open>switchContext\<close> does for that target, which for a context absent from the raw
  configuration is the panic.
\<close>

theorem bare_namespace_skips_contextExists:
  assumes "CHR ''/'' \<notin> set arg"
      and "\<not> contextExists kubeconfig (ActiveContext kubeconfig)"
  shows "quickSwitch L kubeconfig [prog, arg] w =
           exit0 (switchContext L
             \<lparr>rh_context = ActiveContext kubeconfig, rh_namespace = arg\<rparr> w) \<and>
         (\<forall>raw. RawConfig L (fs w) = Inr raw \<and> api_Contexts raw (ActiveContext kubeconfig) = None
            \<longrightarrow> quickSwitch L kubeconfig [prog, arg] w =
                  Panic ''invalid memory address or nil pointer dereference'')"
proof -
  have q: "quickSwitch L kubeconfig [prog, arg] w =
             exit0 (switchContext L
               \<lparr>rh_context = ActiveContext kubeconfig, rh_namespace = arg\<rparr> w)"
    using assms(1) by (simp add: quickSwitch_def Split_no_sep)
  have "quickSwitch L kubeconfig [prog, arg] w =
          Panic ''invalid memory address or nil pointer dereference''"
    if "RawConfig L (fs w) = Inr raw" "api_Contexts raw (ActiveContext kubeconfig) = None" for raw
    using that q
      switchContext_absent [of L w raw "\<lparr>rh_context = ActiveContext kubeconfig, rh_namespace = arg\<rparr>"]
    by (simp add: exit0_def)
  with q show ?thesis by blast
qed

text \<open>The argument \<open>ns1\<close> with an empty active context.\<close>

theorem bare_namespace_skips_contextExists_witness:
  "CHR ''/'' \<notin> set ''ns1'' \<and>
   \<not> contextExists (kubeconfig0\<lparr>ActiveContext := []\<rparr>) (ActiveContext (kubeconfig0\<lparr>ActiveContext := []\<rparr>)) \<and>
   RawConfig memory (fs no_current) = Inr (d_raw (fs no_current)) \<and>
   api_Contexts (d_raw (fs no_current)) (ActiveContext (kubeconfig0\<lparr>ActiveContext := []\<rparr>)) = None \<and>
   quickSwitch memory (kubeconfig0\<lparr>ActiveContext := []\<rparr>) [''kubeswitch'', ''ns1''] no_current =
     exit0 (switchContext memory \<lparr>rh_context = [], rh_namespace = ''ns1''\<rparr> no_current) \<and>
   quickSwitch memory (kubeconfig0\<lparr>ActiveContext := []\<rparr>) [''kubeswitch'', ''ns1''] no_current =
     Panic ''invalid memory address or nil pointer dereference''"
  using bare_namespace_skips_contextExists
          [of "''ns1''" "kubeconfig0\<lparr>ActiveContext := []\<rparr>" memory "''kubeswitch''" no_current]
  by (simp add: contextExists_def kubeconfig0_def memory_def mem_RawConfig_def no_current_def
        two_contexts_def exit0_def switchContext_def)

subsection \<open>The session\<close>

lemma sel_SetText [simp]:
  "node_color (SetText t n) = node_color n" "node_expanded (SetText t n) = node_expanded n"
  "node_reference (SetText t n) = node_reference n" "node_children (SetText t n) = node_children n"
  "node_text (SetText t n) = t"
  by (cases n; simp)+

lemma sel_SetColor [simp]:
  "node_color (SetColor c n) = c" "node_expanded (SetColor c n) = node_expanded n"
  "node_reference (SetColor c n) = node_reference n" "node_children (SetColor c n) = node_children n"
  "node_text (SetColor c n) = node_text n"
  by (cases n; simp)+

lemma sel_SetExpanded [simp]:
  "node_color (SetExpanded e n) = node_color n" "node_expanded (SetExpanded e n) = e"
  "node_reference (SetExpanded e n) = node_reference n" "node_children (SetExpanded e n) = node_children n"
  "node_text (SetExpanded e n) = node_text n"
  by (cases n; simp)+

lemma sel_SetReference [simp]:
  "node_color (SetReference r n) = node_color n" "node_expanded (SetReference r n) = node_expanded n"
  "node_reference (SetReference r n) = r" "node_children (SetReference r n) = node_children n"
  "node_text (SetReference r n) = node_text n"
  by (cases n; simp)+

lemma sel_AddChild [simp]:
  "node_color (AddChild k n) = node_color n" "node_expanded (AddChild k n) = node_expanded n"
  "node_reference (AddChild k n) = node_reference n" "node_children (AddChild k n) = node_children n @ [k]"
  "node_text (AddChild k n) = node_text n"
  by (cases n; simp)+

lemma addNamespaces_keeps:
  "node_expanded (fst (addNamespaces c i nss (n, h))) = node_expanded n \<and>
   node_reference (fst (addNamespaces c i nss (n, h))) = node_reference n \<and>
   length (node_children (fst (addNamespaces c i nss (n, h)))) = length (node_children n) + length nss"
  by (induction nss arbitrary: n h) (simp_all add: Let_def)

lemma getNamespaces_world:
  "getNamespacesInContextsCluster verbs api ctx w = Return r w' \<Longrightarrow> w' = w"
  by (auto simp: getNamespacesInContextsCluster_def split: option.splits if_splits sum.splits list_error.splits prod.splits)

lemma getNamespaces_no_exit:
  "getNamespacesInContextsCluster verbs api ctx w \<noteq> Exit code w'"
  "getNamespacesInContextsCluster verbs api ctx w \<noteq> Panic m"
  by (auto simp: getNamespacesInContextsCluster_def split: option.splits if_splits sum.splits list_error.splits prod.splits)

lemma getNamespaces_indep:
  "getNamespacesInContextsCluster verbs api ctx w = Return r w \<Longrightarrow>
   getNamespacesInContextsCluster verbs api ctx w' = Return r w'"
  "getNamespacesInContextsCluster verbs api ctx w = LogFatal m \<Longrightarrow>
   getNamespacesInContextsCluster verbs api ctx w' = LogFatal m"
  by (auto simp: getNamespacesInContextsCluster_def split: option.splits if_splits sum.splits list_error.splits prod.splits)

lemma markNode_keeps [simp]:
  "node_expanded (markNode kc c err n) = node_expanded n"
  "node_reference (markNode kc c err n) = node_reference n"
  by (simp_all add: markNode_def split: option.splits)

lemma nth_update_twice:
  "j \<noteq> i \<Longrightarrow> j < length xs \<Longrightarrow> xs[i := a, k := b] ! j = (if k = j then b else xs ! j)"
  by (cases "k = j") (simp_all add: nth_list_update_neq)

lemma toggleExpanded_props:
  assumes i: "i < length (contextNodes s)"
  shows "length (contextNodes (toggleExpanded i s)) = length (contextNodes s)"
    and "node_expanded (contextNodes (toggleExpanded i s) ! i) =
           (\<not> node_expanded (contextNodes s ! i))"
    and "expandedNode (toggleExpanded i s) =
           (if \<not> node_expanded (contextNodes s ! i) then Some i else expandedNode s)"
    and "j < length (contextNodes s) \<Longrightarrow> j \<noteq> i \<Longrightarrow>
           node_expanded (contextNodes (toggleExpanded i s) ! j) =
             (node_expanded (contextNodes s ! j) \<and>
              \<not> (\<not> node_expanded (contextNodes s ! i) \<and> expandedNode s = Some j))"
    and "j < length (contextNodes s) \<Longrightarrow>
           node_reference (contextNodes (toggleExpanded i s) ! j) =
             node_reference (contextNodes s ! j)"
    and "requests (toggleExpanded i s) = requests s"
  using i
  by (auto simp: toggleExpanded_def Let_def IsExpanded_def Collapse_def nth_list_update
        nth_update_twice split: option.splits)

lemma populate_props:
  assumes i: "i < length (contextNodes s)"
  shows "length (contextNodes (populate c i nss s)) = length (contextNodes s)"
    and "j < length (contextNodes s) \<Longrightarrow>
           node_expanded (contextNodes (populate c i nss s) ! j) =
             node_expanded (contextNodes s ! j)"
    and "j < length (contextNodes s) \<Longrightarrow>
           node_reference (contextNodes (populate c i nss s) ! j) =
             node_reference (contextNodes s ! j)"
    and "expandedNode (populate c i nss s) = expandedNode s"
    and "requests (populate c i nss s) = requests s"
    and "length (node_children (contextNodes (populate c i nss s) ! i)) =
           length (node_children (contextNodes s ! i)) + length nss"
  using i addNamespaces_keeps [of c i nss "contextNodes s ! i" "highlightNode s"]
  by (auto simp: populate_def Let_def nth_list_update)

lemma contextSelected_cases:
  assumes ref: "node_reference (contextNodes s ! i) = RefContext c"
  shows "contextSelected verbs kubeconfig api i s =
           (case getNamespacesInContextsCluster verbs api (Name c) () of
              Return r u \<Rightarrow>
                Return ()
                  (populate c i (fst r)
                    (toggleExpanded i
                      (s\<lparr>requests := requests s @ [Name c],
                         contextNodes := (contextNodes s)
                           [i := markNode kubeconfig c (snd r) (contextNodes s ! i)]\<rparr>)))
            | Exit code u \<Rightarrow> Panic ''unreachable''
            | LogFatal m \<Rightarrow> LogFatal m
            | Panic m \<Rightarrow> Panic m)"
proof (cases "getNamespacesInContextsCluster verbs api (Name c) ()")
  case (Return r u)
  from getNamespaces_indep(1) [of verbs api "Name c" "()" r "s\<lparr>requests := requests s @ [Name c]\<rparr>"] Return
  have "getNamespacesInContextsCluster verbs api (Name c) (s\<lparr>requests := requests s @ [Name c]\<rparr>)
          = Return r (s\<lparr>requests := requests s @ [Name c]\<rparr>)"
    by simp
  with Return ref show ?thesis
    by (cases r) (simp add: contextSelected_def GetReference_def)
next
  case (Exit code u)
  then show ?thesis by (simp add: getNamespaces_no_exit)
next
  case (LogFatal m)
  from getNamespaces_indep(2) [OF LogFatal]
  have "getNamespacesInContextsCluster verbs api (Name c) (s\<lparr>requests := requests s @ [Name c]\<rparr>)
          = LogFatal m" .
  with LogFatal ref show ?thesis
    by (simp add: contextSelected_def GetReference_def)
next
  case (Panic m)
  then show ?thesis by (simp add: getNamespaces_no_exit)
qed

lemma contextSelected_Return:
  assumes i: "i < length (contextNodes s)"
      and ref: "node_reference (contextNodes s ! i) = RefContext c"
      and sel: "contextSelected verbs kubeconfig api i s = Return u s'"
  shows "length (contextNodes s') = length (contextNodes s)"
    and "node_expanded (contextNodes s' ! i) = (\<not> node_expanded (contextNodes s ! i))"
    and "expandedNode s' =
           (if \<not> node_expanded (contextNodes s ! i) then Some i else expandedNode s)"
    and "\<And>j. j < length (contextNodes s) \<Longrightarrow> j \<noteq> i \<Longrightarrow>
           node_expanded (contextNodes s' ! j) =
             (node_expanded (contextNodes s ! j) \<and>
              \<not> (\<not> node_expanded (contextNodes s ! i) \<and> expandedNode s = Some j))"
    and "\<And>j. j < length (contextNodes s) \<Longrightarrow>
           node_reference (contextNodes s' ! j) = node_reference (contextNodes s ! j)"
    and "requests s' = requests s @ [Name c]"
proof -
  define s1 where "s1 = s\<lparr>requests := requests s @ [Name c],
      contextNodes := (contextNodes s)[i := markNode kubeconfig c
         (snd (case getNamespacesInContextsCluster verbs api (Name c) () of Return r u \<Rightarrow> r))
         (contextNodes s ! i)]\<rparr>"
  define nss where "nss = fst (case getNamespacesInContextsCluster verbs api (Name c) () of Return r u \<Rightarrow> r)"
  have s': "s' = populate c i nss (toggleExpanded i s1)"
    using sel contextSelected_cases [OF ref, of verbs kubeconfig api]
    by (auto simp: s1_def nss_def split: proc.splits)
  have len1: "length (contextNodes s1) = length (contextNodes s)"
    by (simp add: s1_def)
  have i1: "i < length (contextNodes s1)" using i by (simp add: len1)
  have exp1: "\<And>j. j < length (contextNodes s) \<Longrightarrow>
                node_expanded (contextNodes s1 ! j) = node_expanded (contextNodes s ! j)"
    using i by (simp add: s1_def nth_list_update)
  have ref1: "\<And>j. j < length (contextNodes s) \<Longrightarrow>
                node_reference (contextNodes s1 ! j) = node_reference (contextNodes s ! j)"
    using i by (simp add: s1_def nth_list_update)
  have en1: "expandedNode s1 = expandedNode s" by (simp add: s1_def)
  have rq1: "requests s1 = requests s @ [Name c]" by (simp add: s1_def)
  have it: "i < length (contextNodes (toggleExpanded i s1))"
    using i1 by (simp add: toggleExpanded_props(1))
  show "length (contextNodes s') = length (contextNodes s)"
    by (simp add: s' populate_props(1) [OF it] toggleExpanded_props(1) [OF i1] len1)
  show "node_expanded (contextNodes s' ! i) = (\<not> node_expanded (contextNodes s ! i))"
    using i by (simp add: s' populate_props(2) [OF it it] toggleExpanded_props(2) [OF i1] exp1)
  show "expandedNode s' =
          (if \<not> node_expanded (contextNodes s ! i) then Some i else expandedNode s)"
    using i by (simp add: s' populate_props(4) [OF it] toggleExpanded_props(3) [OF i1] exp1 en1)
  show "node_expanded (contextNodes s' ! j) =
          (node_expanded (contextNodes s ! j) \<and>
           \<not> (\<not> node_expanded (contextNodes s ! i) \<and> expandedNode s = Some j))"
    if "j < length (contextNodes s)" "j \<noteq> i" for j
    using that i
    by (simp add: s' populate_props(2) [OF it] toggleExpanded_props(1,4) [OF i1] len1 exp1 en1)
  show "node_reference (contextNodes s' ! j) = node_reference (contextNodes s ! j)"
    if "j < length (contextNodes s)" for j
    using that
    by (simp add: s' populate_props(3) [OF it] toggleExpanded_props(1,5) [OF i1] len1 ref1)
  show "requests s' = requests s @ [Name c]"
    by (simp add: s' populate_props(5) [OF it] toggleExpanded_props(6) [OF i1] rq1)
qed

lemma tree_inv_expanded:
  "tree_inv kubeconfig s \<Longrightarrow> i < length (contextNodes s) \<Longrightarrow>
   node_expanded (contextNodes s ! i) \<Longrightarrow> expandedNode s = Some i"
  by (simp add: tree_inv_def)

lemma tree_inv_buildTree: "tree_inv kubeconfig (buildTree kubeconfig)"
  by (simp add: tree_inv_def buildTree_def newContextNode_def Collapse_def Let_def)

lemma tree_inv_handle:
  assumes inv: "tree_inv kubeconfig s"
      and h: "handle verbs kubeconfig e s = Return u s'"
  shows "tree_inv kubeconfig s'"
proof (cases e)
  case (Select i api)
  show ?thesis
  proof (cases "i < length (contextNodes s)")
    case False
    with h Select inv show ?thesis by simp
  next
    case True
    with h Select have sel: "contextSelected verbs kubeconfig api i s = Return u s'"
      by simp
    from inv True have ref: "node_reference (contextNodes s ! i) = RefContext (Contexts kubeconfig ! i)"
      by (simp add: tree_inv_def)
    note R = contextSelected_Return [OF True ref sel]
    have "node_reference (contextNodes s' ! j) = RefContext (Contexts kubeconfig ! j) \<and>
          (node_expanded (contextNodes s' ! j) \<longrightarrow> expandedNode s' = Some j)"
      if j: "j < length (contextNodes s)" for j
    proof (cases "j = i")
      case True
      with j R(2,3) R(5) [OF j] inv show ?thesis
        by (simp add: tree_inv_def)
    next
      case False
      from inv j have ej: "node_expanded (contextNodes s ! j) \<longrightarrow> expandedNode s = Some j"
        by (simp add: tree_inv_def)
      from inv True have ei: "node_expanded (contextNodes s ! i) \<longrightarrow> expandedNode s = Some i"
        by (simp add: tree_inv_def)
      from R(4) [OF j False] ej ei False have "\<not> node_expanded (contextNodes s' ! j)"
        by auto
      with R(5) [OF j] inv j show ?thesis
        by (simp add: tree_inv_def)
    qed
    with R(1) inv show ?thesis
      by (simp add: tree_inv_def)
  qed
qed

lemma tree_inv_run:
  "tree_inv kubeconfig s \<Longrightarrow> run verbs kubeconfig evs s = Return u s' \<Longrightarrow> tree_inv kubeconfig s'"
proof (induction evs arbitrary: s)
  case Nil
  then show ?case by simp
next
  case (Cons e evs)
  from Cons.prems(2) obtain u1 s1 where
    h: "handle verbs kubeconfig e s = Return u1 s1" and
    r: "run verbs kubeconfig evs s1 = Return u s'"
    by (auto split: proc.splits)
  from tree_inv_handle [OF Cons.prems(1) h] have "tree_inv kubeconfig s1" .
  from Cons.IH [OF this r] show ?case .
qed

lemma filter_at_most_one:
  "(\<And>i j. i < length xs \<Longrightarrow> j < length xs \<Longrightarrow> P (xs ! i) \<Longrightarrow> P (xs ! j) \<Longrightarrow> i = j)
   \<Longrightarrow> length (filter P xs) \<le> 1"
proof (induction xs)
  case Nil
  then show ?case by simp
next
  case (Cons x xs)
  have step: "\<And>i j. i < length xs \<Longrightarrow> j < length xs \<Longrightarrow> P (xs ! i) \<Longrightarrow> P (xs ! j) \<Longrightarrow> i = j"
  proof -
    fix i j assume "i < length xs" "j < length xs" "P (xs ! i)" "P (xs ! j)"
    with Cons.prems [of "Suc i" "Suc j"] show "i = j" by simp
  qed
  show ?case
  proof (cases "P x")
    case False
    with Cons.IH [OF step] show ?thesis by simp
  next
    case True
    have "\<not> P y" if "y \<in> set xs" for y
    proof
      assume py: "P y"
      from that obtain k where k: "k < length xs" "xs ! k = y"
        by (auto simp: in_set_conv_nth)
      with Cons.prems [of 0 "Suc k"] True py show False by simp
    qed
    then have "filter P xs = []" by (simp add: filter_empty_conv)
    with True show ?thesis by simp
  qed
qed

lemma tree_inv_at_most_one:
  assumes "tree_inv kubeconfig s"
  shows "length (filter IsExpanded (contextNodes s)) \<le> 1"
proof (rule filter_at_most_one)
  fix i j
  assume i: "i < length (contextNodes s)" and j: "j < length (contextNodes s)"
     and ei: "IsExpanded (contextNodes s ! i)" and ej: "IsExpanded (contextNodes s ! j)"
  from ei have "expandedNode s = Some i"
    unfolding IsExpanded_def by (rule tree_inv_expanded [OF assms i])
  moreover from ej have "expandedNode s = Some j"
    unfolding IsExpanded_def by (rule tree_inv_expanded [OF assms j])
  ultimately show "i = j" by simp
qed

lemma handle_others_collapsed:
  assumes inv: "tree_inv kubeconfig s"
      and i: "i < length (contextNodes s)"
      and h: "handle verbs kubeconfig (Select i api) s = Return u s'"
      and j: "j < length (contextNodes s)" and ji: "j \<noteq> i"
  shows "\<not> node_expanded (contextNodes s' ! j)"
proof -
  from h i have sel: "contextSelected verbs kubeconfig api i s = Return u s'" by simp
  from inv i have ref: "node_reference (contextNodes s ! i) = RefContext (Contexts kubeconfig ! i)"
    by (simp add: tree_inv_def)
  note R = contextSelected_Return [OF i ref sel]
  show ?thesis
  proof
    assume e': "node_expanded (contextNodes s' ! j)"
    with R(4) [OF j ji] have ej: "node_expanded (contextNodes s ! j)"
      and no: "\<not> (\<not> node_expanded (contextNodes s ! i) \<and> expandedNode s = Some j)"
      by simp_all
    from tree_inv_expanded [OF inv j ej] have en: "expandedNode s = Some j" .
    with no have "node_expanded (contextNodes s ! i)" by simp
    from tree_inv_expanded [OF inv i this] en ji show False by simp
  qed
qed

lemma handle_continues:
  assumes inv: "tree_inv kubeconfig s"
      and i: "i < length (contextNodes s)"
      and g: "getNamespacesInContextsCluster verbs api (Name (Contexts kubeconfig ! i)) () = Return r ()"
  shows "\<exists>s'. handle verbs kubeconfig (Select i api) s = Return () s'"
proof -
  from inv i have ref: "node_reference (contextNodes s ! i) = RefContext (Contexts kubeconfig ! i)"
    by (simp add: tree_inv_def)
  from contextSelected_cases [OF ref, of verbs kubeconfig api] g i show ?thesis
    by simp
qed

lemma handle_fatal:
  assumes inv: "tree_inv kubeconfig s"
      and i: "i < length (contextNodes s)"
      and g: "getNamespacesInContextsCluster verbs api (Name (Contexts kubeconfig ! i)) () = LogFatal m"
  shows "handle verbs kubeconfig (Select i api) s = LogFatal m"
proof -
  from inv i have ref: "node_reference (contextNodes s ! i) = RefContext (Contexts kubeconfig ! i)"
    by (simp add: tree_inv_def)
  from contextSelected_cases [OF ref, of verbs kubeconfig api] g i show ?thesis
    by simp
qed

lemma getNamespaces_kinds:
  "(\<exists>items. getNamespacesInContextsCluster verbs api context w = Return (items, None) w \<and>
      NamespacesList (api context) = Inr items) \<or>
   (\<exists>e. getNamespacesInContextsCluster verbs api context w = Return ([], Some e) w \<and>
      ((e = ''error in config file'' \<and>
          (\<exists>m. ClientConfig (api context) = Some (''clientcmd.errConfigurationInvalid'', m))) \<or>
       (e = ''unreachable'' \<and> (\<exists>m. NamespacesList (api context) = Inl (UrlError m))) \<or>
       (\<exists>m. e = Errorf verbs (''error from api: '' @ m) \<and>
          NamespacesList (api context) = Inl (StatusError m)) \<or>
       (e = ''error'' \<and> (\<exists>m. NamespacesList (api context) = Inl (OtherError m))))) \<or>
   (\<exists>m. getNamespacesInContextsCluster verbs api context w = LogFatal m \<and>
      ((\<exists>ty. ClientConfig (api context) = Some (ty, m) \<and>
          ty \<noteq> ''clientcmd.errConfigurationInvalid'') \<or>
       (ClientConfig (api context) = None \<and> NewForConfig (api context) = Some m)))"
proof (cases "ClientConfig (api context)")
  case (Some p)
  then show ?thesis
    by (cases p) (simp add: getNamespacesInContextsCluster_def Errorf_def)
next
  case None
  note cc = this
  show ?thesis
  proof (cases "NewForConfig (api context)")
    case (Some m)
    with cc show ?thesis by (simp add: getNamespacesInContextsCluster_def)
  next
    case None
    note nf = this
    show ?thesis
    proof (cases "NamespacesList (api context)")
      case (Inr items)
      with cc nf show ?thesis by (simp add: getNamespacesInContextsCluster_def)
    next
      case (Inl err)
      with cc nf show ?thesis
        by (cases err) (simp_all add: getNamespacesInContextsCluster_def Errorf_def)
    qed
  qed
qed

lemma getNamespaces_by_cause:
  "(\<forall>ty m. ClientConfig (api context) = Some (ty, m) \<and>
       ty \<noteq> ''clientcmd.errConfigurationInvalid''
       \<longrightarrow> getNamespacesInContextsCluster verbs api context w = LogFatal m) \<and>
   (\<forall>m. ClientConfig (api context) = None \<and> NewForConfig (api context) = Some m
       \<longrightarrow> getNamespacesInContextsCluster verbs api context w = LogFatal m) \<and>
   (\<forall>m. ClientConfig (api context) = Some (''clientcmd.errConfigurationInvalid'', m)
       \<longrightarrow> getNamespacesInContextsCluster verbs api context w =
             Return ([], Some ''error in config file'') w) \<and>
   (\<forall>m. ClientConfig (api context) = None \<and> NewForConfig (api context) = None \<and>
       NamespacesList (api context) = Inl (UrlError m)
       \<longrightarrow> getNamespacesInContextsCluster verbs api context w =
             Return ([], Some ''unreachable'') w) \<and>
   (\<forall>m. ClientConfig (api context) = None \<and> NewForConfig (api context) = None \<and>
       NamespacesList (api context) = Inl (StatusError m)
       \<longrightarrow> getNamespacesInContextsCluster verbs api context w =
             Return ([], Some (Errorf verbs (''error from api: '' @ m))) w) \<and>
   (\<forall>m. ClientConfig (api context) = None \<and> NewForConfig (api context) = None \<and>
       NamespacesList (api context) = Inl (OtherError m)
       \<longrightarrow> getNamespacesInContextsCluster verbs api context w =
             Return ([], Some ''error'') w) \<and>
   (\<forall>items. ClientConfig (api context) = None \<and> NewForConfig (api context) = None \<and>
       NamespacesList (api context) = Inr items
       \<longrightarrow> getNamespacesInContextsCluster verbs api context w = Return (items, None) w)"
  by (simp add: getNamespacesInContextsCluster_def Errorf_def)

lemma getNamespaces_returns:
  assumes "(\<exists>m. ClientConfig (api context) = Some (''clientcmd.errConfigurationInvalid'', m)) \<or>
           (ClientConfig (api context) = None \<and> NewForConfig (api context) = None)"
  shows "\<exists>r. getNamespacesInContextsCluster verbs api context w = Return r w"
  using assms
  by (auto simp: getNamespacesInContextsCluster_def split: sum.splits list_error.splits)

text \<open>The definitions that run a session on concrete events.\<close>

lemmas session_eval =
  after_def buildTree_def kubeconfig0_def newContextNode_def NewTreeNode_def
  Collapse_def contextSelected_def GetReference_def getNamespacesInContextsCluster_def
  reply_ok_def reply_unreachable_def reply_config_unreadable_def Errorf_def
  markNode_def toggleExpanded_def populate_def IsExpanded_def Let_def

text \<open>
  C4. After any sequence of selections of context nodes, at most one context node is
  expanded; and selecting context \<open>b\<close> while a different context \<open>a\<close> is expanded
  leaves \<open>a\<close> collapsed and \<open>b\<close> expanded.
\<close>

theorem at_most_one_expanded:
  assumes reach: "run verbs kubeconfig evs (buildTree kubeconfig) = Return u s"
  shows "length (filter IsExpanded (contextNodes s)) \<le> 1 \<and>
         (\<forall>a b api s'.
            a < length (contextNodes s) \<and> b < length (contextNodes s) \<and> a \<noteq> b \<and>
            IsExpanded (contextNodes s ! a) \<and>
            handle verbs kubeconfig (Select b api) s = Return () s'
            \<longrightarrow> \<not> IsExpanded (contextNodes s' ! a) \<and> IsExpanded (contextNodes s' ! b) \<and>
                length (filter IsExpanded (contextNodes s')) \<le> 1)"
proof -
  have inv: "tree_inv kubeconfig s"
    by (rule tree_inv_run [OF tree_inv_buildTree reach])
  have "\<not> IsExpanded (contextNodes s' ! a) \<and> IsExpanded (contextNodes s' ! b) \<and>
        length (filter IsExpanded (contextNodes s')) \<le> 1"
    if a: "a < length (contextNodes s)" and b: "b < length (contextNodes s)" and ab: "a \<noteq> b"
      and ea: "IsExpanded (contextNodes s ! a)"
      and h: "handle verbs kubeconfig (Select b api) s = Return () s'"
    for a b api s'
  proof -
    from h b have sel: "contextSelected verbs kubeconfig api b s = Return () s'" by simp
    from inv b have ref: "node_reference (contextNodes s ! b) = RefContext (Contexts kubeconfig ! b)"
      by (simp add: tree_inv_def)
    note R = contextSelected_Return [OF b ref sel]
    from inv a ea have en: "expandedNode s = Some a"
      by (simp add: tree_inv_def IsExpanded_def)
    with inv b ab have nb: "\<not> node_expanded (contextNodes s ! b)"
      by (auto simp: tree_inv_def)
    from R(4) [OF a ab] nb en have "\<not> IsExpanded (contextNodes s' ! a)"
      by (simp add: IsExpanded_def)
    moreover from R(2) nb have "IsExpanded (contextNodes s' ! b)"
      by (simp add: IsExpanded_def)
    moreover from tree_inv_at_most_one [OF tree_inv_handle [OF inv h]]
    have "length (filter IsExpanded (contextNodes s')) \<le> 1" .
    ultimately show ?thesis by simp
  qed
  with tree_inv_at_most_one [OF inv] show ?thesis by blast
qed

text \<open>Selecting \<open>ctx0\<close>, then \<open>ctxA\<close>, then \<open>ctx0\<close> again.\<close>

theorem at_most_one_expanded_witness:
  "run id kubeconfig0 [Select 0 (reply_ok []), Select 1 (reply_ok [])] (buildTree kubeconfig0) =
     Return () (after [Select 0 (reply_ok []), Select 1 (reply_ok [])]) \<and>
   length (filter IsExpanded
     (contextNodes (after [Select 0 (reply_ok []), Select 1 (reply_ok [])]))) \<le> 1 \<and>
   IsExpanded (contextNodes (after [Select 0 (reply_ok []), Select 1 (reply_ok [])]) ! 1) \<and>
   handle id kubeconfig0 (Select 0 (reply_ok []))
     (after [Select 0 (reply_ok []), Select 1 (reply_ok [])]) =
     Return () (after [Select 0 (reply_ok []), Select 1 (reply_ok []), Select 0 (reply_ok [])]) \<and>
   \<not> IsExpanded (contextNodes
     (after [Select 0 (reply_ok []), Select 1 (reply_ok []), Select 0 (reply_ok [])]) ! 1) \<and>
   IsExpanded (contextNodes
     (after [Select 0 (reply_ok []), Select 1 (reply_ok []), Select 0 (reply_ok [])]) ! 0)"
  using at_most_one_expanded
          [of id kubeconfig0 "[Select 0 (reply_ok []), Select 1 (reply_ok [])]" "()"
              "after [Select 0 (reply_ok []), Select 1 (reply_ok [])]"]
  by (simp add: session_eval)

text \<open>
  C2, as the code has it. Every selection of a context node calls
  \<open>getNamespacesInContextsCluster\<close> once for that node's context, the first
  selection and every later one alike, and flips the node's \<open>expanded\<close> flag: a
  selection of an expanded node collapses it.
\<close>

theorem every_selection_fetches_and_toggles:
  assumes reach: "run verbs kubeconfig evs (buildTree kubeconfig) = Return u s"
      and i: "i < length (contextNodes s)"
      and h: "handle verbs kubeconfig (Select i api) s = Return () s'"
  shows "requests s' = requests s @ [Name (Contexts kubeconfig ! i)] \<and>
         IsExpanded (contextNodes s' ! i) = (\<not> IsExpanded (contextNodes s ! i))"
proof -
  have inv: "tree_inv kubeconfig s"
    by (rule tree_inv_run [OF tree_inv_buildTree reach])
  from h i have sel: "contextSelected verbs kubeconfig api i s = Return () s'" by simp
  from inv i have ref: "node_reference (contextNodes s ! i) = RefContext (Contexts kubeconfig ! i)"
    by (simp add: tree_inv_def)
  from contextSelected_Return(2,6) [OF i ref sel] show ?thesis
    by (simp add: IsExpanded_def)
qed

text \<open>The second selection of \<open>ctx0\<close>.\<close>

theorem every_selection_witness:
  "run id kubeconfig0 [Select 0 (reply_ok [''default''])] (buildTree kubeconfig0) =
     Return () (after [Select 0 (reply_ok [''default''])]) \<and>
   0 < length (contextNodes (after [Select 0 (reply_ok [''default''])])) \<and>
   handle id kubeconfig0 (Select 0 (reply_ok [''default'']))
     (after [Select 0 (reply_ok [''default''])]) =
     Return () (after [Select 0 (reply_ok [''default'']), Select 0 (reply_ok [''default''])]) \<and>
   requests (after [Select 0 (reply_ok [''default'']), Select 0 (reply_ok [''default''])]) =
     requests (after [Select 0 (reply_ok [''default''])]) @ [''ctx0''] \<and>
   IsExpanded (contextNodes (after [Select 0 (reply_ok [''default''])]) ! 0) \<and>
   \<not> IsExpanded (contextNodes
     (after [Select 0 (reply_ok [''default'']), Select 0 (reply_ok [''default''])]) ! 0)"
  using every_selection_fetches_and_toggles
          [of id kubeconfig0 "[Select 0 (reply_ok [''default''])]" "()"
              "after [Select 0 (reply_ok [''default''])]" 0 "reply_ok [''default'']"
              "after [Select 0 (reply_ok [''default'']), Select 0 (reply_ok [''default''])]"]
  by (simp add: session_eval)

text \<open>
  C2 as stated fails: the second selection of \<open>ctx0\<close> collapses the node, but it
  has called the listing a second time and the node has two children for the one
  namespace.
\<close>

theorem second_selection_fetches_again_counterexample:
  "observe (run id kubeconfig0 [Select 0 (reply_ok [''default'']), Select 0 (reply_ok [''default''])]
      (buildTree kubeconfig0)) =
   Some ([''ctx0'', ''ctx0''], [(False, 2), (False, 0)])"
  by (simp add: observe_def buildTree_def kubeconfig0_def newContextNode_def NewTreeNode_def
        Collapse_def contextSelected_def GetReference_def getNamespacesInContextsCluster_def
        reply_ok_def markNode_def toggleExpanded_def populate_def IsExpanded_def Let_def)

text \<open>
  C5, as the code has it. For every context name the listing either succeeds, or
  returns an empty list with an error of one of four kinds (\<open>error in config file\<close>
  for a client configuration of type \<open>clientcmd.errConfigurationInvalid\<close>,
  \<open>unreachable\<close> for a \<open>url.Error\<close>, \<open>error from api: \<close> followed by the server's
  message for a \<open>StatusError\<close>, \<open>error\<close> for any other error of the request), or
  ends the process through \<open>log.Fatalln\<close>; and each cause has its outcome: a client
  configuration error of another type and a client set that cannot be built end
  the process with the error's message, every other failure is returned. After a
  returned result the session goes on and every other context can still be
  expanded; in the two fatal cases the handler ends the process.
\<close>

theorem listing_failure_returned_or_fatal:
  assumes reach: "run verbs kubeconfig evs (buildTree kubeconfig) = Return u s"
      and i: "i < length (contextNodes s)"
  shows
    "((\<exists>items. getNamespacesInContextsCluster verbs api context w = Return (items, None) w \<and>
         NamespacesList (api context) = Inr items) \<or>
      (\<exists>e. getNamespacesInContextsCluster verbs api context w = Return ([], Some e) w \<and>
         ((e = ''error in config file'' \<and>
             (\<exists>m. ClientConfig (api context) = Some (''clientcmd.errConfigurationInvalid'', m))) \<or>
          (e = ''unreachable'' \<and> (\<exists>m. NamespacesList (api context) = Inl (UrlError m))) \<or>
          (\<exists>m. e = Errorf verbs (''error from api: '' @ m) \<and>
             NamespacesList (api context) = Inl (StatusError m)) \<or>
          (e = ''error'' \<and> (\<exists>m. NamespacesList (api context) = Inl (OtherError m))))) \<or>
      (\<exists>m. getNamespacesInContextsCluster verbs api context w = LogFatal m \<and>
         ((\<exists>ty. ClientConfig (api context) = Some (ty, m) \<and>
             ty \<noteq> ''clientcmd.errConfigurationInvalid'') \<or>
          (ClientConfig (api context) = None \<and> NewForConfig (api context) = Some m)))) \<and>
     (\<forall>ty m. ClientConfig (api context) = Some (ty, m) \<and>
         ty \<noteq> ''clientcmd.errConfigurationInvalid''
         \<longrightarrow> getNamespacesInContextsCluster verbs api context w = LogFatal m) \<and>
     (\<forall>m. ClientConfig (api context) = None \<and> NewForConfig (api context) = Some m
         \<longrightarrow> getNamespacesInContextsCluster verbs api context w = LogFatal m) \<and>
     (\<forall>m. ClientConfig (api context) = Some (''clientcmd.errConfigurationInvalid'', m)
         \<longrightarrow> getNamespacesInContextsCluster verbs api context w =
               Return ([], Some ''error in config file'') w) \<and>
     (\<forall>m. ClientConfig (api context) = None \<and> NewForConfig (api context) = None \<and>
         NamespacesList (api context) = Inl (UrlError m)
         \<longrightarrow> getNamespacesInContextsCluster verbs api context w =
               Return ([], Some ''unreachable'') w) \<and>
     (\<forall>m. ClientConfig (api context) = None \<and> NewForConfig (api context) = None \<and>
         NamespacesList (api context) = Inl (StatusError m)
         \<longrightarrow> getNamespacesInContextsCluster verbs api context w =
               Return ([], Some (Errorf verbs (''error from api: '' @ m))) w) \<and>
     (\<forall>m. ClientConfig (api context) = None \<and> NewForConfig (api context) = None \<and>
         NamespacesList (api context) = Inl (OtherError m)
         \<longrightarrow> getNamespacesInContextsCluster verbs api context w =
               Return ([], Some ''error'') w) \<and>
     (\<forall>m. CHR ''%'' \<notin> set m \<longrightarrow>
        Errorf verbs (''error from api: '' @ m) = ''error from api: '' @ m) \<and>
     (\<forall>r. getNamespacesInContextsCluster verbs api (Name (Contexts kubeconfig ! i)) () =
            Return r ()
        \<longrightarrow> (\<exists>s'. handle verbs kubeconfig (Select i api) s = Return () s' \<and>
               (\<forall>j api' r'.
                  j < length (contextNodes s) \<and> j \<noteq> i \<and>
                  getNamespacesInContextsCluster verbs api' (Name (Contexts kubeconfig ! j)) () =
                    Return r' ()
                  \<longrightarrow> (\<exists>s''. handle verbs kubeconfig (Select j api') s' = Return () s'' \<and>
                         IsExpanded (contextNodes s'' ! j))))) \<and>
     (\<forall>m. getNamespacesInContextsCluster verbs api (Name (Contexts kubeconfig ! i)) () =
            LogFatal m
        \<longrightarrow> handle verbs kubeconfig (Select i api) s = LogFatal m) \<and>
     ((\<exists>m. ClientConfig (api (Name (Contexts kubeconfig ! i))) =
              Some (''clientcmd.errConfigurationInvalid'', m)) \<or>
      (ClientConfig (api (Name (Contexts kubeconfig ! i))) = None \<and>
       NewForConfig (api (Name (Contexts kubeconfig ! i))) = None)
        \<longrightarrow> (\<exists>s'. handle verbs kubeconfig (Select i api) s = Return () s')) \<and>
     (\<forall>ty m. ClientConfig (api (Name (Contexts kubeconfig ! i))) = Some (ty, m) \<and>
         ty \<noteq> ''clientcmd.errConfigurationInvalid''
         \<longrightarrow> handle verbs kubeconfig (Select i api) s = LogFatal m) \<and>
     (\<forall>m. ClientConfig (api (Name (Contexts kubeconfig ! i))) = None \<and>
         NewForConfig (api (Name (Contexts kubeconfig ! i))) = Some m
         \<longrightarrow> handle verbs kubeconfig (Select i api) s = LogFatal m)"
proof -
  let ?ci = "Name (Contexts kubeconfig ! i)"
  have inv: "tree_inv kubeconfig s"
    by (rule tree_inv_run [OF tree_inv_buildTree reach])
  have part2: "\<forall>m. CHR ''%'' \<notin> set m \<longrightarrow>
        Errorf verbs (''error from api: '' @ m) = ''error from api: '' @ m"
    by (simp add: Errorf_def)
  have part3: "\<exists>s'. handle verbs kubeconfig (Select i api) s = Return () s' \<and>
               (\<forall>j api' r'.
                  j < length (contextNodes s) \<and> j \<noteq> i \<and>
                  getNamespacesInContextsCluster verbs api' (Name (Contexts kubeconfig ! j)) () =
                    Return r' ()
                  \<longrightarrow> (\<exists>s''. handle verbs kubeconfig (Select j api') s' = Return () s'' \<and>
                         IsExpanded (contextNodes s'' ! j)))"
    if g: "getNamespacesInContextsCluster verbs api ?ci () = Return r ()"
    for r
  proof -
    from handle_continues [OF inv i g] obtain s' where
      h: "handle verbs kubeconfig (Select i api) s = Return () s'" ..
    have inv': "tree_inv kubeconfig s'" by (rule tree_inv_handle [OF inv h])
    from h i have sel: "contextSelected verbs kubeconfig api i s = Return () s'" by simp
    from inv i have ref: "node_reference (contextNodes s ! i) = RefContext (Contexts kubeconfig ! i)"
      by (simp add: tree_inv_def)
    have len: "length (contextNodes s') = length (contextNodes s)"
      by (rule contextSelected_Return(1) [OF i ref sel])
    have "\<exists>s''. handle verbs kubeconfig (Select j api') s' = Return () s'' \<and>
                IsExpanded (contextNodes s'' ! j)"
      if j: "j < length (contextNodes s)" and ji: "j \<noteq> i"
        and g': "getNamespacesInContextsCluster verbs api' (Name (Contexts kubeconfig ! j)) () =
                   Return r' ()"
      for j api' r'
    proof -
      from j len have j': "j < length (contextNodes s')" by simp
      from handle_continues [OF inv' j' g'] obtain s'' where
        h': "handle verbs kubeconfig (Select j api') s' = Return () s''" ..
      from h' j' have sel': "contextSelected verbs kubeconfig api' j s' = Return () s''" by simp
      from inv' j' have ref': "node_reference (contextNodes s' ! j) = RefContext (Contexts kubeconfig ! j)"
        by (simp add: tree_inv_def)
      from handle_others_collapsed [OF inv i h j ji]
      have "\<not> node_expanded (contextNodes s' ! j)" .
      with contextSelected_Return(2) [OF j' ref' sel']
      have "IsExpanded (contextNodes s'' ! j)" by (simp add: IsExpanded_def)
      with h' show ?thesis by blast
    qed
    with h show ?thesis by blast
  qed
  have part4: "handle verbs kubeconfig (Select i api) s = LogFatal m"
    if "getNamespacesInContextsCluster verbs api ?ci () = LogFatal m"
    for m
    by (rule handle_fatal [OF inv i that])
  note cause = getNamespaces_by_cause [of api "context" verbs w]
  note cause_i = getNamespaces_by_cause [of api ?ci verbs "()"]
  have part5: "\<exists>s'. handle verbs kubeconfig (Select i api) s = Return () s'"
    if c: "(\<exists>m. ClientConfig (api ?ci) = Some (''clientcmd.errConfigurationInvalid'', m)) \<or>
           (ClientConfig (api ?ci) = None \<and> NewForConfig (api ?ci) = None)"
  proof -
    from getNamespaces_returns [of api ?ci verbs "()", OF c] obtain r where
      "getNamespacesInContextsCluster verbs api ?ci () = Return r ()" ..
    from handle_continues [OF inv i this] show ?thesis .
  qed
  have part6: "handle verbs kubeconfig (Select i api) s = LogFatal m"
    if "ClientConfig (api ?ci) = Some (ty, m)" "ty \<noteq> ''clientcmd.errConfigurationInvalid''"
    for ty m
    using that cause_i part4 by blast
  have part7: "handle verbs kubeconfig (Select i api) s = LogFatal m"
    if "ClientConfig (api ?ci) = None" "NewForConfig (api ?ci) = Some m"
    for m
    using that cause_i part4 by blast
  have kinds: "(\<exists>items. getNamespacesInContextsCluster verbs api context w = Return (items, None) w \<and>
         NamespacesList (api context) = Inr items) \<or>
      (\<exists>e. getNamespacesInContextsCluster verbs api context w = Return ([], Some e) w \<and>
         ((e = ''error in config file'' \<and>
             (\<exists>m. ClientConfig (api context) = Some (''clientcmd.errConfigurationInvalid'', m))) \<or>
          (e = ''unreachable'' \<and> (\<exists>m. NamespacesList (api context) = Inl (UrlError m))) \<or>
          (\<exists>m. e = Errorf verbs (''error from api: '' @ m) \<and>
             NamespacesList (api context) = Inl (StatusError m)) \<or>
          (e = ''error'' \<and> (\<exists>m. NamespacesList (api context) = Inl (OtherError m))))) \<or>
      (\<exists>m. getNamespacesInContextsCluster verbs api context w = LogFatal m \<and>
         ((\<exists>ty. ClientConfig (api context) = Some (ty, m) \<and>
             ty \<noteq> ''clientcmd.errConfigurationInvalid'') \<or>
          (ClientConfig (api context) = None \<and> NewForConfig (api context) = Some m)))"
    by (rule getNamespaces_kinds)
  show ?thesis
    apply (intro conjI)
    subgoal by (rule kinds)
    subgoal using cause by blast
    subgoal using cause by blast
    subgoal using cause by blast
    subgoal using cause by blast
    subgoal using cause by blast
    subgoal using cause by blast
    subgoal by (rule part2)
    subgoal using part3 by blast
    subgoal using part4 by blast
    subgoal using part5 by blast
    subgoal using part6 by blast
    subgoal using part7 by blast
    done
qed

text \<open>
  An unreachable cluster for \<open>ctx0\<close>, then the expansion of \<open>ctxA\<close>; the
  configuration file that has gone; the client set that cannot be built; the
  invalid client configuration.
\<close>

theorem listing_failure_witness:
  "run id kubeconfig0 [] (buildTree kubeconfig0) = Return () (after []) \<and>
   0 < length (contextNodes (after [])) \<and>
   getNamespacesInContextsCluster id reply_unreachable (Name (Contexts kubeconfig0 ! 0)) () =
     Return ([], Some ''unreachable'') () \<and>
   handle id kubeconfig0 (Select 0 reply_unreachable) (after []) =
     Return () (after [Select 0 reply_unreachable]) \<and>
   1 < length (contextNodes (after [])) \<and>
   getNamespacesInContextsCluster id (reply_ok [''kube-system'']) (Name (Contexts kubeconfig0 ! 1)) () =
     Return ([''kube-system''], None) () \<and>
   handle id kubeconfig0 (Select 1 (reply_ok [''kube-system''])) (after [Select 0 reply_unreachable]) =
     Return () (after [Select 0 reply_unreachable, Select 1 (reply_ok [''kube-system''])]) \<and>
   IsExpanded (contextNodes
     (after [Select 0 reply_unreachable, Select 1 (reply_ok [''kube-system''])]) ! 1) \<and>
   getNamespacesInContextsCluster id reply_config_unreadable (Name (Contexts kubeconfig0 ! 0)) () =
     LogFatal ''stat /home/user/.kube/config: no such file or directory'' \<and>
   handle id kubeconfig0 (Select 0 reply_config_unreadable) (after []) =
     LogFatal ''stat /home/user/.kube/config: no such file or directory'' \<and>
   ClientConfig (reply_clientset_fails ''ctx0'') = None \<and>
   NewForConfig (reply_clientset_fails ''ctx0'') = Some ''host must be a URL or a host:port pair'' \<and>
   getNamespacesInContextsCluster id reply_clientset_fails ''ctx0'' () =
     LogFatal ''host must be a URL or a host:port pair'' \<and>
   handle id kubeconfig0 (Select 0 reply_clientset_fails) (after []) =
     LogFatal ''host must be a URL or a host:port pair'' \<and>
   ClientConfig (reply_config_invalid ''ctx0'') =
     Some (''clientcmd.errConfigurationInvalid'', ''invalid configuration'') \<and>
   getNamespacesInContextsCluster id reply_config_invalid ''ctx0'' () =
     Return ([], Some ''error in config file'') () \<and>
   handle id kubeconfig0 (Select 0 reply_config_invalid) (after []) =
     Return () (after [Select 0 reply_config_invalid])"
  using listing_failure_returned_or_fatal
          [of id kubeconfig0 "[]" "()" "after []" 0 reply_unreachable "''ctx0''" "()"]
        listing_failure_returned_or_fatal
          [of id kubeconfig0 "[]" "()" "after []" 0 reply_clientset_fails "''ctx0''" "()"]
        listing_failure_returned_or_fatal
          [of id kubeconfig0 "[]" "()" "after []" 0 reply_config_invalid "''ctx0''" "()"]
  by (simp add: session_eval reply_clientset_fails_def reply_config_invalid_def)

text \<open>
  C5 as stated fails: the configuration file has gone when \<open>ctx0\<close> is selected, the
  client configuration fails with an error of another type than
  \<open>clientcmd.errConfigurationInvalid\<close>, and the process ends.
\<close>

theorem listing_failure_terminates_counterexample:
  "run id kubeconfig0 [Select 0 reply_config_unreadable] (buildTree kubeconfig0) =
     LogFatal ''stat /home/user/.kube/config: no such file or directory''"
  by (simp add: session_eval)

end
